theory Spec2Isabelle
  imports Complex_Main "HOL-Library.Log_Nat"
begin

section \<open>JavaScript values the indexers compute with\<close>

text \<open>
  The indexers keep every amount as a string. Two JavaScript conversions act on these
  strings: \<^verbatim>\<open>bigint.toString()\<close>, which renders an unsigned integer in decimal, and
  \<^verbatim>\<open>parseFloat\<close>, which reads a decimal literal and rounds its mathematical value to the
  nearest IEEE-754 binary64 number (ties to even). A finite Number is represented by the
  rational it denotes; the two zeros are not distinguished.
\<close>

subsection \<open>\<^verbatim>\<open>bigint.toString()\<close>\<close>

definition digitChar :: "nat \<Rightarrow> char" where
  "digitChar d = ''0123456789'' ! d"

fun show_nat :: "nat \<Rightarrow> string" where
  "show_nat n = (if n < 10 then [digitChar n] else show_nat (n div 10) @ [digitChar (n mod 10)])"

declare show_nat.simps [simp del]

subsection \<open>Numbers\<close>

datatype jsnum = NaN | PosInf | NegInf | Fin rat

text \<open>
  \<open>ilog2 x\<close> is the binary exponent \<open>k\<close> of a positive rational, \<open>2^k \<le> x < 2^(k+1)\<close>;
  \<open>b powi e\<close> is the power with an integer exponent.
\<close>

definition ilog2 :: "rat \<Rightarrow> int" where
  "ilog2 x = (case quotient_of x of (n, d) \<Rightarrow>
     (let k = bitlen n - bitlen d in if 2 powi k \<le> x then k else k - 1))"

definition roundTiesToEven :: "rat \<Rightarrow> int" where
  "roundTiesToEven y = (let q = \<lfloor>y\<rfloor>; f = y - of_int q
     in if 1 / 2 < f \<or> (f = 1 / 2 \<and> odd q) then q + 1 else q)"

text \<open>
  The Number value of a rational: 53 significant bits, the exponent not below that of
  the subnormals, overflow to an infinity.
\<close>

definition round64 :: "rat \<Rightarrow> jsnum" where
  "round64 x = (if x = 0 then Fin 0 else
     (let a = \<bar>x\<bar>;
          e = max (ilog2 a - 52) (- 1074);
          r = of_int (roundTiesToEven (a / 2 powi e)) * 2 powi e
      in if 2 ^ 1024 \<le> r then (if 0 < x then PosInf else NegInf)
         else Fin (if 0 < x then r else - r)))"

fun js_ge :: "jsnum \<Rightarrow> jsnum \<Rightarrow> bool" where
  "js_ge NaN _ = False"
| "js_ge _ NaN = False"
| "js_ge PosInf _ = True"
| "js_ge _ NegInf = True"
| "js_ge NegInf _ = False"
| "js_ge (Fin a) PosInf = False"
| "js_ge (Fin a) (Fin b) = (b \<le> a)"

fun js_add :: "jsnum \<Rightarrow> jsnum \<Rightarrow> jsnum" where
  "js_add NaN _ = NaN"
| "js_add _ NaN = NaN"
| "js_add PosInf NegInf = NaN"
| "js_add NegInf PosInf = NaN"
| "js_add PosInf _ = PosInf"
| "js_add _ PosInf = PosInf"
| "js_add NegInf _ = NegInf"
| "js_add _ NegInf = NegInf"
| "js_add (Fin a) (Fin b) = round64 (a + b)"

subsection \<open>\<^verbatim>\<open>parseFloat\<close>\<close>

text \<open>
  \<^verbatim>\<open>parseFloat\<close> skips leading white space (here: the ASCII white space), then reads the
  longest prefix that is a decimal literal: an optional sign, then \<^verbatim>\<open>Infinity\<close> or digits
  with an optional fraction and an optional exponent. \<open>parsed\<close> is what was read: nothing,
  an infinity, or the mathematical value (MV) of the literal, before any rounding. The
  value is then rounded correctly, as V8 does for every literal.
\<close>

datatype parsed = NotANumber | Infinity bool | MV rat

definition isWhiteSpace :: "char \<Rightarrow> bool" where
  "isWhiteSpace c = (of_char c \<in> set [9, 10, 11, 12, 13, 32 :: nat])"

definition isDecimalDigit :: "char \<Rightarrow> bool" where
  "isDecimalDigit c = (c \<in> set ''0123456789'')"

definition digitValue :: "char \<Rightarrow> nat" where
  "digitValue c = of_char c - 48"

definition digitsValue :: "string \<Rightarrow> nat" where
  "digitsValue ds = foldl (\<lambda>a c. 10 * a + digitValue c) 0 ds"

definition exponentPart :: "string \<Rightarrow> int" where
  "exponentPart r =
     (case r of
        [] \<Rightarrow> 0
      | c # cs \<Rightarrow>
          if c = CHR ''e'' \<or> c = CHR ''E'' then
            (let neg = (case cs of [] \<Rightarrow> False | s # _ \<Rightarrow> s = CHR ''-'');
                 ds = (case cs of [] \<Rightarrow> []
                       | s # t \<Rightarrow> if s = CHR ''-'' \<or> s = CHR ''+'' then t else cs);
                 ed = takeWhile isDecimalDigit ds
             in if ed = [] then 0
                else if neg then - int (digitsValue ed) else int (digitsValue ed))
          else 0)"

definition StrDecimalLiteral :: "string \<Rightarrow> parsed" where
  "StrDecimalLiteral input =
     (let trimmed = dropWhile isWhiteSpace input;
          neg = (case trimmed of [] \<Rightarrow> False | c # _ \<Rightarrow> c = CHR ''-'');
          unsigned = (case trimmed of [] \<Rightarrow> []
                      | c # cs \<Rightarrow> if c = CHR ''-'' \<or> c = CHR ''+'' then cs else trimmed)
      in if take 8 unsigned = ''Infinity'' then Infinity neg
         else
           (let ip = takeWhile isDecimalDigit unsigned;
                r1 = dropWhile isDecimalDigit unsigned;
                hasDot = (case r1 of [] \<Rightarrow> False | c # _ \<Rightarrow> c = CHR ''.'');
                fp = (if hasDot then takeWhile isDecimalDigit (tl r1) else []);
                r2 = (if hasDot then dropWhile isDecimalDigit (tl r1) else r1);
                m = of_nat (digitsValue (ip @ fp)) * 10 powi (exponentPart r2 - int (length fp))
            in if ip = [] \<and> fp = [] then NotANumber
               else MV (if neg then - m else m)))"

definition parseFloat :: "string \<Rightarrow> jsnum" where
  "parseFloat s =
     (case StrDecimalLiteral s of
        NotANumber \<Rightarrow> NaN
      | Infinity neg \<Rightarrow> (if neg then NegInf else PosInf)
      | MV x \<Rightarrow> round64 x)"

section \<open>The data store\<close>

text \<open>
  The tables of the schema that the indexers touch, each as the list of its rows in
  insertion order. The schema declares plain (non-unique) indexes only, so an insert never
  conflicts with an existing row. Columns that no indexer reads or writes are left out:
  the random UUID \<^verbatim>\<open>id\<close> of a payment or transaction row, and \<^verbatim>\<open>externalChain\<close>,
  \<^verbatim>\<open>memo\<close>, \<^verbatim>\<open>dueAt\<close>, \<^verbatim>\<open>expiresAt\<close>, \<^verbatim>\<open>metadata\<close> and \<^verbatim>\<open>createdAt\<close> of an invoice.
  Of the apps table only the ids are kept: ledger entries refer to them. Timestamps are
  natural numbers.
\<close>

datatype json = JString string | JNumber nat | JDate nat

type_synonym metadata = "(string \<times> json) list"

record invoice =
  i_id :: string
  i_appId :: string
  i_amount :: string
  i_currency :: string
  i_status :: string
  i_paidAt :: "nat option"
  i_updatedAt :: nat

record payment =
  p_invoiceId :: string
  p_externalChain :: string
  p_txHash :: string
  p_payer :: string
  p_amount :: string
  p_currency :: string
  p_status :: string
  p_blockNumber :: nat
  p_blockHash :: string
  p_gasUsed :: string
  p_gasFee :: string
  p_recordedAt :: nat
  p_confirmedAt :: "nat option"
  p_metadata :: metadata

record transaction =
  t_appId :: string
  t_type :: string
  t_chain :: string
  t_txHash :: string
  t_amount :: string
  t_currency :: string
  t_fee :: "string option"
  t_status :: string
  t_blockNumber :: nat
  t_fromAddress :: "string option"
  t_toAddress :: "string option"
  t_metadata :: metadata
  t_createdAt :: nat

record store =
  invoices :: "invoice list"
  payments :: "payment list"
  transactions :: "transaction list"
  apps :: "string list"

text \<open>\<^verbatim>\<open>db.update(invoices).set({status: "paid", paidAt, updatedAt}).where(eq(invoices.id, id))\<close>\<close>

definition setInvoicePaid :: "nat \<Rightarrow> string \<Rightarrow> invoice list \<Rightarrow> invoice list" where
  "setInvoicePaid now ident rows =
     map (\<lambda>i. if i_id i = ident
              then i\<lparr>i_status := ''paid'', i_paidAt := Some now, i_updatedAt := now\<rparr>
              else i) rows"

text \<open>
  The rows keyed to a chain and a transaction hash: the payments, and the ledger entries
  of one type.
\<close>

definition paymentsFor :: "string \<Rightarrow> string \<Rightarrow> store \<Rightarrow> payment list" where
  "paymentsFor chainName h s =
     filter (\<lambda>p. p_externalChain p = chainName \<and> p_txHash p = h) (payments s)"

definition ledgerFor :: "string \<Rightarrow> string \<Rightarrow> string \<Rightarrow> store \<Rightarrow> transaction list" where
  "ledgerFor entryType chainName h s =
     filter (\<lambda>t. t_type t = entryType \<and> t_chain t = chainName \<and> t_txHash t = h)
       (transactions s)"

subsection \<open>What the columns accept\<close>

text \<open>
  An insert throws when a value does not fit the type of its column or refers to a row
  that does not exist; the handlers catch what it throws. The database is reachable, and
  lookups and the invoice update do not throw. The ids of the rows in the store are
  well-formed UUIDs, so an id that is no UUID is the id of no row.

  A \<^verbatim>\<open>decimal(p, s)\<close> column reads its text as PostgreSQL's \<^verbatim>\<open>numeric\<close> input does
  (decimal notation): white space around, a sign, digits with at most one point and at
  least one digit right after the sign and a leading point, an exponent read by
  \<^verbatim>\<open>strtol\<close>, or \<^verbatim>\<open>NaN\<close> in any case. The value is rounded to \<open>s\<close> decimals, half away from
  zero, and must then be below \<open>10^(p-s)\<close> in magnitude. A \<^verbatim>\<open>varchar(n)\<close> column accepts
  \<open>n\<close> characters, followed by spaces only, and no zero byte. An \<^verbatim>\<open>integer\<close> column
  ends at \<open>2^31 - 1\<close>.
  A row keeps the text the handler wrote: what PostgreSQL makes of an accepted text
  (the padded numeral, the spaces cut off) is not read back by any indexer.
\<close>

definition lowerAscii :: "char \<Rightarrow> char" where
  "lowerAscii c =
     (case map_of (zip ''ABCDEFGHIJKLMNOPQRSTUVWXYZ'' ''abcdefghijklmnopqrstuvwxyz'') c of
        Some l \<Rightarrow> l
      | None \<Rightarrow> c)"

definition isNumericNaN :: "string \<Rightarrow> bool" where
  "isNumericNaN input =
     (let trimmed = dropWhile isWhiteSpace input
      in map lowerAscii (take 3 trimmed) = ''nan'' \<and> list_all isWhiteSpace (drop 3 trimmed))"

text \<open>
  The exponent after \<^verbatim>\<open>e\<close>: \<^verbatim>\<open>strtol\<close> skips white space and reads a sign and digits; no
  digit is a syntax error, and so is an exponent of \<^verbatim>\<open>INT_MAX / 2\<close> or more in magnitude.
  The result is the exponent and the rest of the text.
\<close>

definition numericExponent :: "string \<Rightarrow> (int \<times> string) option" where
  "numericExponent r =
     (let t = dropWhile isWhiteSpace r;
          neg = (case t of [] \<Rightarrow> False | c # _ \<Rightarrow> c = CHR ''-'');
          ds = (case t of [] \<Rightarrow> []
                | c # cs \<Rightarrow> if c = CHR ''-'' \<or> c = CHR ''+'' then cs else t);
          ed = takeWhile isDecimalDigit ds
      in if ed = [] \<or> 1073741823 \<le> digitsValue ed then None
         else Some (if neg then - int (digitsValue ed) else int (digitsValue ed),
                    dropWhile isDecimalDigit ds))"

definition numericValue :: "string \<Rightarrow> rat option" where
  "numericValue input =
     (let trimmed = dropWhile isWhiteSpace input;
          neg = (case trimmed of [] \<Rightarrow> False | c # _ \<Rightarrow> c = CHR ''-'');
          unsigned = (case trimmed of [] \<Rightarrow> []
                      | c # cs \<Rightarrow> if c = CHR ''-'' \<or> c = CHR ''+'' then cs else trimmed);
          leadingPoint = (case unsigned of [] \<Rightarrow> False | c # _ \<Rightarrow> c = CHR ''.'');
          body = (if leadingPoint then tl unsigned else unsigned)
      in if (case body of [] \<Rightarrow> True | c # _ \<Rightarrow> \<not> isDecimalDigit c) then None
         else
           (let ds1 = takeWhile isDecimalDigit body;
                r1 = dropWhile isDecimalDigit body;
                point = (case r1 of [] \<Rightarrow> False | c # _ \<Rightarrow> c = CHR ''.'');
                ds2 = (if point then takeWhile isDecimalDigit (tl r1) else []);
                r2 = (if point then dropWhile isDecimalDigit (tl r1) else r1);
                ip = (if leadingPoint then [] else ds1);
                fp = (if leadingPoint then ds1 else ds2);
                secondPoint = ((leadingPoint \<and> point)
                               \<or> (case r2 of [] \<Rightarrow> False | c # _ \<Rightarrow> c = CHR ''.''));
                r3 = (if leadingPoint then r1 else r2);
                hasExponent = (case r3 of [] \<Rightarrow> False
                               | c # _ \<Rightarrow> c = CHR ''e'' \<or> c = CHR ''E'');
                ex = (if hasExponent then numericExponent (tl r3) else Some (0, r3))
            in if secondPoint then None
               else
                 (case ex of
                    None \<Rightarrow> None
                  | Some (e, rest) \<Rightarrow>
                      if list_all isWhiteSpace rest
                      then Some ((if neg then - 1 else 1)
                                 * of_nat (digitsValue (ip @ fp)) * 10 powi (e - int (length fp)))
                      else None)))"

definition roundHalfAway :: "rat \<Rightarrow> int" where
  "roundHalfAway x = (if 0 \<le> x then \<lfloor>x + 1 / 2\<rfloor> else - \<lfloor>- x + 1 / 2\<rfloor>)"

definition numericFits :: "nat \<Rightarrow> nat \<Rightarrow> string \<Rightarrow> bool" where
  "numericFits p s input =
     (isNumericNaN input
      \<or> (case numericValue input of
            None \<Rightarrow> False
          | Some x \<Rightarrow> \<bar>roundHalfAway (x * 10 ^ s)\<bar> < 10 ^ p))"

definition varcharFits :: "nat \<Rightarrow> string \<Rightarrow> bool" where
  "varcharFits n input =
     (CHR 0x00 \<notin> set input \<and> list_all (\<lambda>c. c = CHR '' '') (drop n input))"

definition integerFits :: "nat \<Rightarrow> bool" where
  "integerFits n = (n \<le> 2147483647)"

definition paymentFits :: "store \<Rightarrow> payment \<Rightarrow> bool" where
  "paymentFits s row =
     (p_invoiceId row \<in> set (map i_id (invoices s))
      \<and> varcharFits 50 (p_externalChain row)
      \<and> varcharFits 66 (p_txHash row)
      \<and> varcharFits 255 (p_payer row)
      \<and> numericFits 18 8 (p_amount row)
      \<and> varcharFits 10 (p_currency row)
      \<and> varcharFits 20 (p_status row)
      \<and> integerFits (p_blockNumber row)
      \<and> varcharFits 66 (p_blockHash row)
      \<and> numericFits 18 0 (p_gasUsed row)
      \<and> numericFits 18 8 (p_gasFee row))"

definition transactionFits :: "store \<Rightarrow> transaction \<Rightarrow> bool" where
  "transactionFits s row =
     (t_appId row \<in> set (apps s)
      \<and> varcharFits 20 (t_type row)
      \<and> varcharFits 50 (t_chain row)
      \<and> varcharFits 66 (t_txHash row)
      \<and> numericFits 18 8 (t_amount row)
      \<and> varcharFits 10 (t_currency row)
      \<and> (case t_fee row of None \<Rightarrow> True | Some fee \<Rightarrow> numericFits 18 8 fee)
      \<and> varcharFits 20 (t_status row)
      \<and> integerFits (t_blockNumber row)
      \<and> (case t_fromAddress row of None \<Rightarrow> True | Some a \<Rightarrow> varcharFits 255 a)
      \<and> (case t_toAddress row of None \<Rightarrow> True | Some a \<Rightarrow> varcharFits 255 a))"

text \<open>
  \<^verbatim>\<open>db.insert(payments).values(row)\<close> and \<^verbatim>\<open>db.insert(transactions).values(row)\<close>:
  \<open>None\<close> when the insert throws, and then the table is as it was.
\<close>

definition insertPayment :: "payment \<Rightarrow> store \<Rightarrow> store option" where
  "insertPayment row s =
     (if paymentFits s row then Some (s\<lparr>payments := payments s @ [row]\<rparr>) else None)"

definition insertTransaction :: "transaction \<Rightarrow> store \<Rightarrow> store option" where
  "insertTransaction row s =
     (if transactionFits s row then Some (s\<lparr>transactions := transactions s @ [row]\<rparr>)
      else None)"

section \<open>The chain client\<close>

text \<open>
  What the JSON-RPC provider and the contract answer while one handler or one backfill
  tick runs. Every call may throw. A receipt is reduced to its \<^verbatim>\<open>gasUsed\<close>, a transaction
  to its \<^verbatim>\<open>gasPrice\<close> (which may be null); \<open>None\<close> is JavaScript's null.
  \<^verbatim>\<open>queryFilter\<close> returns logs that the contract interface decoded (\<^verbatim>\<open>EventLog\<close>, with
  \<^verbatim>\<open>args\<close>) or could not decode (\<^verbatim>\<open>Log\<close>).
\<close>

datatype 'a rpc = Throws | Returns 'a

record 'a EventLog =
  args :: 'a
  transactionHash :: string
  log_blockNumber :: nat
  log_blockHash :: string

datatype 'a queried = Decoded "'a EventLog" | Log

type_synonym PaymentReceivedArgs = "string \<times> string \<times> nat \<times> string"
type_synonym WithdrawalExecutedArgs = "string \<times> string \<times> nat \<times> string"
type_synonym FeeCollectedArgs = "string \<times> nat \<times> nat \<times> string"
type_synonym CrossChainPaymentInitiatedArgs = "string \<times> string \<times> nat \<times> string \<times> nat"

record chain =
  getBlockNumber :: "nat rpc"
  getTransactionReceipt :: "string \<Rightarrow> nat option rpc"
  getTransaction :: "string \<Rightarrow> nat option option rpc"
  queryPaymentReceived :: "nat \<Rightarrow> nat \<Rightarrow> PaymentReceivedArgs queried list rpc"
  queryWithdrawalExecuted :: "nat \<Rightarrow> nat \<Rightarrow> WithdrawalExecutedArgs queried list rpc"
  queryFeeCollected :: "nat \<Rightarrow> nat \<Rightarrow> FeeCollectedArgs queried list rpc"
  queryCrossChainPaymentInitiated ::
    "nat \<Rightarrow> nat \<Rightarrow> CrossChainPaymentInitiatedArgs queried list rpc"

section \<open>Events\<close>

record PaymentEvent =
  invoiceId :: string
  payer :: string
  amount :: string
  currency :: string
  txHash :: string
  blockNumber :: nat
  blockHash :: string
  gasUsed :: string
  gasFee :: string

record CrossChainPaymentEvent = PaymentEvent +
  chainId :: nat

record WithdrawalEvent =
  w_appId :: string
  w_recipient :: string
  w_amount :: string
  w_currency :: string
  w_txHash :: string
  w_blockNumber :: nat
  w_blockHash :: string

record FeeEvent =
  f_appId :: string
  f_platformFee :: string
  f_networkFee :: string
  f_currency :: string
  f_txHash :: string
  f_blockNumber :: nat
  f_blockHash :: string

section \<open>PushChainIndexer: the event handlers\<close>

text \<open>
  Each handler is one \<^verbatim>\<open>try { ... } catch (error) { console.error(...) }\<close>: when a call
  inside throws, a chain lookup or an insert, the handler returns and the store keeps
  the writes made before; no database transaction spans the writes of a handler. The
  handlers take the chain client \<open>c\<close>, the time \<open>now\<close> of \<^verbatim>\<open>new Date()\<close>, and the store.
  \<open>contract\<close> is the configured address \<^verbatim>\<open>PUSH_CHAIN_CONFIG.contracts.payment\<close>.
\<close>

text \<open>
  Lines 212 to 219: the receipt lookup. \<^verbatim>\<open>receipt.gasUsed * tx.gasPrice!\<close> multiplies two
  bigints; with a null \<^verbatim>\<open>gasPrice\<close> the multiplication throws a TypeError.
\<close>

definition push_gasInfo :: "chain \<Rightarrow> PaymentEvent \<Rightarrow> PaymentEvent rpc" where
  "push_gasInfo c event =
     (case getTransactionReceipt c (txHash event) of
        Throws \<Rightarrow> Throws
      | Returns None \<Rightarrow> Returns event
      | Returns (Some used) \<Rightarrow>
          (case getTransaction c (txHash event) of
             Throws \<Rightarrow> Throws
           | Returns None \<Rightarrow> Returns (event\<lparr>gasUsed := show_nat used\<rparr>)
           | Returns (Some None) \<Rightarrow> Throws
           | Returns (Some (Some price)) \<Rightarrow>
               Returns (event\<lparr>gasUsed := show_nat used, gasFee := show_nat (used * price)\<rparr>)))"

text \<open>Line 266: \<^verbatim>\<open>parseFloat(event.amount) >= parseFloat(invoice.amount)\<close>.\<close>

definition amountCovers :: "string \<Rightarrow> string \<Rightarrow> bool" where
  "amountCovers paid due = js_ge (parseFloat paid) (parseFloat due)"

definition push_newPayment :: "nat \<Rightarrow> PaymentEvent \<Rightarrow> payment" where
  "push_newPayment now event =
     \<lparr> p_invoiceId = invoiceId event,
       p_externalChain = ''push-chain'',
       p_txHash = txHash event,
       p_payer = payer event,
       p_amount = amount event,
       p_currency = currency event,
       p_status = ''confirmed'',
       p_blockNumber = blockNumber event,
       p_blockHash = blockHash event,
       p_gasUsed = gasUsed event,
       p_gasFee = gasFee event,
       p_recordedAt = now,
       p_confirmedAt = Some now,
       p_metadata = [(''indexedAt'', JDate now), (''source'', JString ''push-chain-indexer'')] \<rparr>"

definition push_paymentTransaction ::
  "string \<Rightarrow> nat \<Rightarrow> invoice \<Rightarrow> PaymentEvent \<Rightarrow> transaction" where
  "push_paymentTransaction contract now invoice event =
     \<lparr> t_appId = i_appId invoice,
       t_type = ''payment'',
       t_chain = ''push-chain'',
       t_txHash = txHash event,
       t_amount = amount event,
       t_currency = currency event,
       t_fee = Some (gasFee event),
       t_status = ''confirmed'',
       t_blockNumber = blockNumber event,
       t_fromAddress = Some (payer event),
       t_toAddress = Some contract,
       t_metadata = [(''invoiceId'', JString (invoiceId event)), (''indexedAt'', JDate now)],
       t_createdAt = now \<rparr>"

definition processPaymentEvent ::
  "string \<Rightarrow> chain \<Rightarrow> nat \<Rightarrow> PaymentEvent \<Rightarrow> store \<Rightarrow> store" where
  "processPaymentEvent contract c now event0 s =
     (case push_gasInfo c event0 of
        Throws \<Rightarrow> s
      | Returns event \<Rightarrow>
          (case find (\<lambda>p. p_txHash p = txHash event \<and> p_externalChain p = ''push-chain'')
                  (payments s) of
             Some existingPayment \<Rightarrow> s
           | None \<Rightarrow>
               (case find (\<lambda>i. i_id i = invoiceId event) (invoices s) of
                  None \<Rightarrow> s
                | Some invoice \<Rightarrow>
                    (case insertPayment (push_newPayment now event) s of
                       None \<Rightarrow> s
                     | Some s1 \<Rightarrow>
                         (let s2 = (if amountCovers (amount event) (i_amount invoice)
                                    then s1\<lparr>invoices :=
                                           setInvoicePaid now (invoiceId event) (invoices s1)\<rparr>
                                    else s1)
                          in case insertTransaction
                                    (push_paymentTransaction contract now invoice event) s2 of
                               None \<Rightarrow> s2
                             | Some s3 \<Rightarrow> s3)))))"

definition processWithdrawalEvent ::
  "string \<Rightarrow> nat \<Rightarrow> WithdrawalEvent \<Rightarrow> store \<Rightarrow> store" where
  "processWithdrawalEvent contract now event s =
     (case insertTransaction
        \<lparr> t_appId = w_appId event,
            t_type = ''withdrawal'',
            t_chain = ''push-chain'',
            t_txHash = w_txHash event,
            t_amount = w_amount event,
            t_currency = w_currency event,
            t_fee = None,
            t_status = ''confirmed'',
            t_blockNumber = w_blockNumber event,
            t_fromAddress = Some contract,
            t_toAddress = Some (w_recipient event),
            t_metadata = [(''indexedAt'', JDate now),
                          (''source'', JString ''push-chain-indexer'')],
            t_createdAt = now \<rparr> s of
        None \<Rightarrow> s
      | Some s1 \<Rightarrow> s1)"

text \<open>
  Line 337: \<^verbatim>\<open>(parseFloat(event.platformFee) + parseFloat(event.networkFee)).toString()\<close>.
  \<open>toStr\<close> stands for \<^verbatim>\<open>Number.prototype.toString\<close>, which is taken as a parameter.
\<close>

definition totalFee :: "(jsnum \<Rightarrow> string) \<Rightarrow> string \<Rightarrow> string \<Rightarrow> string" where
  "totalFee toStr platformFee networkFee =
     toStr (js_add (parseFloat platformFee) (parseFloat networkFee))"

definition processFeeEvent ::
  "(jsnum \<Rightarrow> string) \<Rightarrow> nat \<Rightarrow> FeeEvent \<Rightarrow> store \<Rightarrow> store" where
  "processFeeEvent toStr now event s =
     (case insertTransaction
        \<lparr> t_appId = f_appId event,
            t_type = ''fee'',
            t_chain = ''push-chain'',
            t_txHash = f_txHash event,
            t_amount = totalFee toStr (f_platformFee event) (f_networkFee event),
            t_currency = f_currency event,
            t_fee = None,
            t_status = ''confirmed'',
            t_blockNumber = f_blockNumber event,
            t_fromAddress = None,
            t_toAddress = None,
            t_metadata = [(''platformFee'', JString (f_platformFee event)),
                          (''networkFee'', JString (f_networkFee event)),
                          (''indexedAt'', JDate now),
                          (''source'', JString ''push-chain-indexer'')],
            t_createdAt = now \<rparr> s of
        None \<Rightarrow> s
      | Some s1 \<Rightarrow> s1)"

text \<open>
  The subscription callbacks (lines 92 to 142) and the backfill's
  \<^verbatim>\<open>process...EventFromLog\<close> (lines 363 to 402) build the same event from a decoded log:
  the amounts are \<^verbatim>\<open>bigint.toString()\<close>, the gas fields start as \<^verbatim>\<open>"0"\<close>.
\<close>

definition paymentEventOfLog :: "PaymentReceivedArgs EventLog \<Rightarrow> PaymentEvent" where
  "paymentEventOfLog l =
     (case args l of (a_invoiceId, a_payer, a_amount, a_currency) \<Rightarrow>
        \<lparr> invoiceId = a_invoiceId, payer = a_payer, amount = show_nat a_amount,
          currency = a_currency, txHash = transactionHash l,
          blockNumber = log_blockNumber l, blockHash = log_blockHash l,
          gasUsed = ''0'', gasFee = ''0'' \<rparr>)"

definition withdrawalEventOfLog :: "WithdrawalExecutedArgs EventLog \<Rightarrow> WithdrawalEvent" where
  "withdrawalEventOfLog l =
     (case args l of (a_appId, a_recipient, a_amount, a_currency) \<Rightarrow>
        \<lparr> w_appId = a_appId, w_recipient = a_recipient, w_amount = show_nat a_amount,
          w_currency = a_currency, w_txHash = transactionHash l,
          w_blockNumber = log_blockNumber l, w_blockHash = log_blockHash l \<rparr>)"

definition feeEventOfLog :: "FeeCollectedArgs EventLog \<Rightarrow> FeeEvent" where
  "feeEventOfLog l =
     (case args l of (a_appId, a_platformFee, a_networkFee, a_currency) \<Rightarrow>
        \<lparr> f_appId = a_appId, f_platformFee = show_nat a_platformFee,
          f_networkFee = show_nat a_networkFee, f_currency = a_currency,
          f_txHash = transactionHash l, f_blockNumber = log_blockNumber l,
          f_blockHash = log_blockHash l \<rparr>)"

definition processPaymentEventFromLog ::
  "string \<Rightarrow> chain \<Rightarrow> nat \<Rightarrow> PaymentReceivedArgs EventLog \<Rightarrow> store \<Rightarrow> store" where
  "processPaymentEventFromLog contract c now l s =
     processPaymentEvent contract c now (paymentEventOfLog l) s"

definition processWithdrawalEventFromLog ::
  "string \<Rightarrow> nat \<Rightarrow> WithdrawalExecutedArgs EventLog \<Rightarrow> store \<Rightarrow> store" where
  "processWithdrawalEventFromLog contract now l s =
     processWithdrawalEvent contract now (withdrawalEventOfLog l) s"

definition processFeeEventFromLog ::
  "(jsnum \<Rightarrow> string) \<Rightarrow> nat \<Rightarrow> FeeCollectedArgs EventLog \<Rightarrow> store \<Rightarrow> store" where
  "processFeeEventFromLog toStr now l s = processFeeEvent toStr now (feeEventOfLog l) s"

text \<open>The \<^verbatim>\<open>PaymentReceived\<close> listener registered by \<^verbatim>\<open>setupEventListeners\<close>.\<close>

definition onPaymentReceived ::
  "string \<Rightarrow> chain \<Rightarrow> nat \<Rightarrow> PaymentReceivedArgs EventLog \<Rightarrow> store \<Rightarrow> store" where
  "onPaymentReceived contract c now l s =
     processPaymentEvent contract c now (paymentEventOfLog l) s"

definition onWithdrawalExecuted ::
  "string \<Rightarrow> nat \<Rightarrow> WithdrawalExecutedArgs EventLog \<Rightarrow> store \<Rightarrow> store" where
  "onWithdrawalExecuted contract now l s =
     processWithdrawalEvent contract now (withdrawalEventOfLog l) s"

definition onFeeCollected ::
  "(jsnum \<Rightarrow> string) \<Rightarrow> nat \<Rightarrow> FeeCollectedArgs EventLog \<Rightarrow> store \<Rightarrow> store" where
  "onFeeCollected toStr now l s = processFeeEvent toStr now (feeEventOfLog l) s"

section \<open>EthereumIndexer: the event handlers\<close>

text \<open>
  One EthereumIndexer runs per configured external chain; \<open>cid\<close> is its
  \<^verbatim>\<open>this.chainId\<close>. Its receipt lookup guards the multiplication with
  \<^verbatim>\<open>tx && tx.gasPrice\<close>, which is false for a null and for a zero \<^verbatim>\<open>gasPrice\<close>.
\<close>

definition getChainName :: "nat \<Rightarrow> string" where
  "getChainName cid =
     (case map_of [(1, ''ethereum''), (11155111, ''sepolia''), (137, ''polygon''),
                   (80001, ''mumbai''), (42101, ''push-chain'')] cid of
        Some name \<Rightarrow> name
      | None \<Rightarrow> ''chain-'' @ show_nat cid)"

definition eth_gasInfo :: "chain \<Rightarrow> CrossChainPaymentEvent \<Rightarrow> CrossChainPaymentEvent rpc" where
  "eth_gasInfo c event =
     (case getTransactionReceipt c (txHash event) of
        Throws \<Rightarrow> Throws
      | Returns None \<Rightarrow> Returns event
      | Returns (Some used) \<Rightarrow>
          (case getTransaction c (txHash event) of
             Throws \<Rightarrow> Throws
           | Returns None \<Rightarrow> Returns (event\<lparr>gasUsed := show_nat used\<rparr>)
           | Returns (Some None) \<Rightarrow> Returns (event\<lparr>gasUsed := show_nat used\<rparr>)
           | Returns (Some (Some price)) \<Rightarrow>
               (if price = 0 then Returns (event\<lparr>gasUsed := show_nat used\<rparr>)
                else Returns (event\<lparr>gasUsed := show_nat used,
                                    gasFee := show_nat (used * price)\<rparr>))))"

text \<open>
  The payment and transaction rows of both handlers differ in their metadata only:
  \<open>kind\<close> is \<^verbatim>\<open>"cross-chain"\<close> or \<^verbatim>\<open>"direct"\<close>, \<open>idKey\<close> is \<^verbatim>\<open>sourceChainId\<close> or
  \<^verbatim>\<open>chainId\<close>. \<^verbatim>\<open>recordedAt\<close> is not set and takes the column's default, the current time.
\<close>

definition eth_newPayment ::
  "string \<Rightarrow> string \<Rightarrow> nat \<Rightarrow> nat \<Rightarrow> CrossChainPaymentEvent \<Rightarrow> payment" where
  "eth_newPayment kind idKey cid now event =
     \<lparr> p_invoiceId = invoiceId event,
       p_externalChain = getChainName cid,
       p_txHash = txHash event,
       p_payer = payer event,
       p_amount = amount event,
       p_currency = currency event,
       p_status = ''confirmed'',
       p_blockNumber = blockNumber event,
       p_blockHash = blockHash event,
       p_gasUsed = gasUsed event,
       p_gasFee = gasFee event,
       p_recordedAt = now,
       p_confirmedAt = Some now,
       p_metadata = [(''type'', JString kind), (idKey, JNumber cid),
                     (''indexedAt'', JDate now), (''source'', JString ''ethereum-indexer'')] \<rparr>"

definition eth_paymentTransaction ::
  "string \<Rightarrow> string \<Rightarrow> nat \<Rightarrow> nat \<Rightarrow> invoice \<Rightarrow> CrossChainPaymentEvent \<Rightarrow> transaction" where
  "eth_paymentTransaction kind idKey cid now invoice event =
     \<lparr> t_appId = i_appId invoice,
       t_type = ''payment'',
       t_chain = getChainName cid,
       t_txHash = txHash event,
       t_amount = amount event,
       t_currency = currency event,
       t_fee = None,
       t_status = ''confirmed'',
       t_blockNumber = blockNumber event,
       t_fromAddress = Some (payer event),
       t_toAddress = Some [],
       t_metadata = [(''invoiceId'', JString (invoiceId event)), (''type'', JString kind),
                     (idKey, JNumber cid), (''indexedAt'', JDate now),
                     (''source'', JString ''ethereum-indexer'')],
       t_createdAt = now \<rparr>"

definition processCrossChainPaymentEvent ::
  "nat \<Rightarrow> chain \<Rightarrow> nat \<Rightarrow> CrossChainPaymentEvent \<Rightarrow> store \<Rightarrow> store" where
  "processCrossChainPaymentEvent cid c now event0 s =
     (case eth_gasInfo c event0 of
        Throws \<Rightarrow> s
      | Returns event \<Rightarrow>
          (case find (\<lambda>i. i_id i = invoiceId event) (invoices s) of
             None \<Rightarrow> s
           | Some existingInvoice \<Rightarrow>
               (case find (\<lambda>p. p_invoiceId p = invoiceId event \<and> p_txHash p = txHash event)
                       (payments s) of
                  Some existingPayment \<Rightarrow> s
                | None \<Rightarrow>
                    (case insertPayment
                            (eth_newPayment ''cross-chain'' ''sourceChainId'' cid now event) s of
                       None \<Rightarrow> s
                     | Some s1 \<Rightarrow>
                         (case insertTransaction
                                 (eth_paymentTransaction ''cross-chain'' ''sourceChainId'' cid now
                                    existingInvoice event) s1 of
                            None \<Rightarrow> s1
                          | Some s2 \<Rightarrow> s2)))))"

definition processDirectPaymentEvent ::
  "nat \<Rightarrow> chain \<Rightarrow> nat \<Rightarrow> CrossChainPaymentEvent \<Rightarrow> store \<Rightarrow> store" where
  "processDirectPaymentEvent cid c now event0 s =
     (case eth_gasInfo c event0 of
        Throws \<Rightarrow> s
      | Returns event \<Rightarrow>
          (case find (\<lambda>i. i_id i = invoiceId event) (invoices s) of
             None \<Rightarrow> s
           | Some existingInvoice \<Rightarrow>
               (case find (\<lambda>p. p_invoiceId p = invoiceId event \<and> p_txHash p = txHash event)
                       (payments s) of
                  Some existingPayment \<Rightarrow> s
                | None \<Rightarrow>
                    (case insertPayment (eth_newPayment ''direct'' ''chainId'' cid now event) s of
                       None \<Rightarrow> s
                     | Some s1 \<Rightarrow>
                         (case insertTransaction
                                 (eth_paymentTransaction ''direct'' ''chainId'' cid now
                                    existingInvoice event) s1 of
                            None \<Rightarrow> s1
                          | Some s2 \<Rightarrow> s2)))))"

text \<open>
  The listeners (lines 96 to 146) and the backfill (lines 195 to 230) build the event
  from the log's arguments; \<^verbatim>\<open>targetChainId\<close> is read and not used.
\<close>

definition crossChainEventOfLog ::
  "nat \<Rightarrow> CrossChainPaymentInitiatedArgs EventLog \<Rightarrow> CrossChainPaymentEvent" where
  "crossChainEventOfLog cid l =
     (case args l of (a_invoiceId, a_payer, a_amount, a_currency, a_targetChainId) \<Rightarrow>
        \<lparr> invoiceId = a_invoiceId, payer = a_payer, amount = show_nat a_amount,
          currency = a_currency, txHash = transactionHash l,
          blockNumber = log_blockNumber l, blockHash = log_blockHash l,
          gasUsed = ''0'', gasFee = ''0'', chainId = cid \<rparr>)"

definition directEventOfLog ::
  "nat \<Rightarrow> PaymentReceivedArgs EventLog \<Rightarrow> CrossChainPaymentEvent" where
  "directEventOfLog cid l =
     (case args l of (a_invoiceId, a_payer, a_amount, a_currency) \<Rightarrow>
        \<lparr> invoiceId = a_invoiceId, payer = a_payer, amount = show_nat a_amount,
          currency = a_currency, txHash = transactionHash l,
          blockNumber = log_blockNumber l, blockHash = log_blockHash l,
          gasUsed = ''0'', gasFee = ''0'', chainId = cid \<rparr>)"

definition eth_onCrossChainPaymentInitiated ::
  "nat \<Rightarrow> chain \<Rightarrow> nat \<Rightarrow> CrossChainPaymentInitiatedArgs EventLog \<Rightarrow> store \<Rightarrow> store" where
  "eth_onCrossChainPaymentInitiated cid c now l s =
     processCrossChainPaymentEvent cid c now (crossChainEventOfLog cid l) s"

definition eth_onPaymentReceived ::
  "nat \<Rightarrow> chain \<Rightarrow> nat \<Rightarrow> PaymentReceivedArgs EventLog \<Rightarrow> store \<Rightarrow> store" where
  "eth_onPaymentReceived cid c now l s =
     processDirectPaymentEvent cid c now (directEventOfLog cid l) s"

section \<open>Sequences of deliveries\<close>

text \<open>
  A delivery is one call of a handler with one event, by a subscription callback or by
  the backfill; both call the same handler. A step carries the chain client's answers
  and the time at which the handler runs.
\<close>

datatype delivery =
    PushPayment PaymentEvent
  | PushWithdrawal WithdrawalEvent
  | PushFee FeeEvent
  | EthCrossChain nat CrossChainPaymentEvent
  | EthDirect nat CrossChainPaymentEvent

fun deliver ::
  "string \<Rightarrow> (jsnum \<Rightarrow> string) \<Rightarrow> chain \<times> nat \<times> delivery \<Rightarrow> store \<Rightarrow> store" where
  "deliver contract toStr (c, now, PushPayment e) s = processPaymentEvent contract c now e s"
| "deliver contract toStr (c, now, PushWithdrawal e) s = processWithdrawalEvent contract now e s"
| "deliver contract toStr (c, now, PushFee e) s = processFeeEvent toStr now e s"
| "deliver contract toStr (c, now, EthCrossChain cid e) s =
     processCrossChainPaymentEvent cid c now e s"
| "deliver contract toStr (c, now, EthDirect cid e) s = processDirectPaymentEvent cid c now e s"

definition run ::
  "string \<Rightarrow> (jsnum \<Rightarrow> string) \<Rightarrow> (chain \<times> nat \<times> delivery) list \<Rightarrow> store \<Rightarrow> store" where
  "run contract toStr steps s = foldl (\<lambda>s' step. deliver contract toStr step s') s steps"

datatype path = Subscription | Backfill

definition push_deliverLog ::
  "path \<Rightarrow> string \<Rightarrow> chain \<Rightarrow> nat \<Rightarrow> PaymentReceivedArgs EventLog \<Rightarrow> store \<Rightarrow> store" where
  "push_deliverLog via contract c now l s =
     (case via of
        Subscription \<Rightarrow> onPaymentReceived contract c now l s
      | Backfill \<Rightarrow> processPaymentEventFromLog contract c now l s)"

definition eth_deliverLog ::
  "path \<Rightarrow> nat \<Rightarrow> chain \<Rightarrow> nat \<Rightarrow> PaymentReceivedArgs EventLog \<Rightarrow> store \<Rightarrow> store" where
  "eth_deliverLog via cid c now l s =
     (case via of
        Subscription \<Rightarrow> eth_onPaymentReceived cid c now l s
      | Backfill \<Rightarrow> processDirectPaymentEvent cid c now (directEventOfLog cid l) s)"

section \<open>The watchers: start, stop and the backfill tick\<close>

text \<open>
  The state of a watcher object: the running flag, the cursor, and the number of
  listeners registered on its contract. The subscription callbacks and the ticks of the
  backfill timer are separate transitions; \<open>start\<close> registers the listeners and arms the
  timer, each tick is a call of \<open>processBlocks\<close>.
\<close>

datatype error = ProviderError | Error string

record indexer =
  isRunning :: bool
  lastProcessedBlock :: nat
  listeners :: nat

record EthereumIndexer = indexer +
  this_chainId :: nat

definition push_start :: "chain \<Rightarrow> indexer \<Rightarrow> error option \<times> indexer" where
  "push_start c ix =
     (if isRunning ix then (None, ix)
      else
        (case getBlockNumber c of
           Throws \<Rightarrow> (Some ProviderError, ix\<lparr>isRunning := False\<rparr>)
         | Returns latestBlock \<Rightarrow>
             (None, ix\<lparr>isRunning := True,
                        lastProcessedBlock := nat (max 0 (int latestBlock - 100)),
                        listeners := listeners ix + 3\<rparr>)))"

definition push_stop :: "indexer \<Rightarrow> indexer" where
  "push_stop ix = (if \<not> isRunning ix then ix else ix\<lparr>isRunning := False, listeners := 0\<rparr>)"

definition eth_start :: "chain \<Rightarrow> EthereumIndexer \<Rightarrow> error option \<times> EthereumIndexer" where
  "eth_start c ix =
     (if isRunning ix then (None, ix)
      else
        (case getBlockNumber c of
           Throws \<Rightarrow> (Some ProviderError, ix\<lparr>isRunning := False\<rparr>)
         | Returns latestBlock \<Rightarrow>
             (None, ix\<lparr>isRunning := True,
                        lastProcessedBlock := nat (max 0 (int latestBlock - 100)),
                        listeners := listeners ix + 2\<rparr>)))"

definition eth_stop :: "EthereumIndexer \<Rightarrow> EthereumIndexer" where
  "eth_stop ix = (if \<not> isRunning ix then ix else ix\<lparr>isRunning := False, listeners := 0\<rparr>)"

subsection \<open>PushChainIndexer.startBlockProcessing\<close>

text \<open>
  A \<^verbatim>\<open>for\<close> loop over queried logs. The Push Chain backfill reads \<^verbatim>\<open>event.args\<close> without
  a check, so an undecoded log throws out of the loop; the result is paired with whether
  the loop completed.
\<close>

fun forEachLog ::
  "('a EventLog \<Rightarrow> store \<Rightarrow> store) \<Rightarrow> 'a queried list \<Rightarrow> store \<Rightarrow> bool \<times> store" where
  "forEachLog h [] s = (True, s)"
| "forEachLog h (Log # ls) s = (False, s)"
| "forEachLog h (Decoded l # ls) s = forEachLog h ls (h l s)"

definition push_processBlockRange ::
  "string \<Rightarrow> (jsnum \<Rightarrow> string) \<Rightarrow> chain \<Rightarrow> nat \<Rightarrow> nat \<Rightarrow> nat \<Rightarrow> store \<Rightarrow> bool \<times> store" where
  "push_processBlockRange contract toStr c now fromBlock toBlock s =
     (case queryPaymentReceived c fromBlock toBlock of
        Throws \<Rightarrow> (False, s)
      | Returns paymentEvents \<Rightarrow>
     (case queryWithdrawalExecuted c fromBlock toBlock of
        Throws \<Rightarrow> (False, s)
      | Returns withdrawalEvents \<Rightarrow>
     (case queryFeeCollected c fromBlock toBlock of
        Throws \<Rightarrow> (False, s)
      | Returns feeEvents \<Rightarrow>
     (case forEachLog (processPaymentEventFromLog contract c now) paymentEvents s of
        (False, s1) \<Rightarrow> (False, s1)
      | (True, s1) \<Rightarrow>
     (case forEachLog (processWithdrawalEventFromLog contract now) withdrawalEvents s1 of
        (False, s2) \<Rightarrow> (False, s2)
      | (True, s2) \<Rightarrow> forEachLog (processFeeEventFromLog toStr now) feeEvents s2)))))"

definition push_processBlocks ::
  "string \<Rightarrow> (jsnum \<Rightarrow> string) \<Rightarrow> chain \<Rightarrow> nat \<Rightarrow> indexer \<times> store \<Rightarrow> indexer \<times> store" where
  "push_processBlocks contract toStr c now st =
     (case st of (ix, s) \<Rightarrow>
        if \<not> isRunning ix then (ix, s)
        else
          (case getBlockNumber c of
             Throws \<Rightarrow> (ix, s)
           | Returns latestBlock \<Rightarrow>
               if lastProcessedBlock ix < latestBlock then
                 (case push_processBlockRange contract toStr c now
                         (lastProcessedBlock ix + 1) latestBlock s of
                    (False, s') \<Rightarrow> (ix, s')
                  | (True, s') \<Rightarrow> (ix\<lparr>lastProcessedBlock := latestBlock\<rparr>, s'))
               else (ix, s)))"

subsection \<open>EthereumIndexer.startBlockProcessing\<close>

text \<open>
  The Ethereum backfill skips logs that are not \<^verbatim>\<open>EventLog\<close>, and its
  \<^verbatim>\<open>processBlockRange\<close> is itself one \<^verbatim>\<open>try/catch\<close>: a query that throws ends the batch and
  nothing reaches the caller.
\<close>

fun forEachEventLog ::
  "('a EventLog \<Rightarrow> store \<Rightarrow> store) \<Rightarrow> 'a queried list \<Rightarrow> store \<Rightarrow> store" where
  "forEachEventLog h [] s = s"
| "forEachEventLog h (Log # ls) s = forEachEventLog h ls s"
| "forEachEventLog h (Decoded l # ls) s = forEachEventLog h ls (h l s)"

definition eth_processBlockRange ::
  "nat \<Rightarrow> chain \<Rightarrow> nat \<Rightarrow> nat \<Rightarrow> nat \<Rightarrow> store \<Rightarrow> store" where
  "eth_processBlockRange cid c now fromBlock toBlock s =
     (case queryCrossChainPaymentInitiated c fromBlock toBlock of
        Throws \<Rightarrow> s
      | Returns crossChainEvents \<Rightarrow>
     (case queryPaymentReceived c fromBlock toBlock of
        Throws \<Rightarrow> s
      | Returns directPaymentEvents \<Rightarrow>
          forEachEventLog
            (\<lambda>l. processDirectPaymentEvent cid c now (directEventOfLog cid l))
            directPaymentEvents
            (forEachEventLog
               (\<lambda>l. processCrossChainPaymentEvent cid c now (crossChainEventOfLog cid l))
               crossChainEvents s)))"

text \<open>
  \<^verbatim>\<open>for (let i = lastProcessedBlock + 1; i <= latestBlock; i += batchSize)\<close> with
  \<^verbatim>\<open>batchSize = 10\<close>.
\<close>

function eth_batches :: "nat \<Rightarrow> chain \<Rightarrow> nat \<Rightarrow> nat \<Rightarrow> nat \<Rightarrow> store \<Rightarrow> store" where
  "eth_batches cid c now i latestBlock s =
     (if i \<le> latestBlock
      then eth_batches cid c now (i + 10) latestBlock
             (eth_processBlockRange cid c now i (min (i + 10 - 1) latestBlock) s)
      else s)"
  by pat_completeness auto
termination
  by (relation "measure (\<lambda>(cid, c, now, i, latestBlock, s). latestBlock + 1 - i)") auto

declare eth_batches.simps [simp del]

definition eth_processBlocks ::
  "chain \<Rightarrow> nat \<Rightarrow> EthereumIndexer \<times> store \<Rightarrow> EthereumIndexer \<times> store" where
  "eth_processBlocks c now st =
     (case st of (ix, s) \<Rightarrow>
        if \<not> isRunning ix then (ix, s)
        else
          (case getBlockNumber c of
             Throws \<Rightarrow> (ix, s)
           | Returns latestBlock \<Rightarrow>
               if lastProcessedBlock ix < latestBlock then
                 (ix\<lparr>lastProcessedBlock := latestBlock\<rparr>,
                  eth_batches (this_chainId ix) c now (lastProcessedBlock ix + 1) latestBlock s)
               else (ix, s)))"

section \<open>IndexerManager\<close>

text \<open>
  The manager owns the Push Chain watcher and a \<^verbatim>\<open>Map\<close> from chain id to Ethereum
  watcher, kept as an association list in insertion order. \<open>clients\<close> gives the chain
  client of each chain id. \<^verbatim>\<open>Promise.allSettled\<close> waits for every \<^verbatim>\<open>start()\<close> and drops
  the rejections.
\<close>

record IndexerConfig =
  cfg_chainId :: nat
  cfg_rpcUrl :: string
  cfg_contractAddress :: string
  cfg_enabled :: bool

record IndexerManager =
  pushChainIndexer :: indexer
  ethereumIndexers :: "(nat \<times> EthereumIndexer) list"
  m_isRunning :: bool

fun mapSet :: "nat \<Rightarrow> 'v \<Rightarrow> (nat \<times> 'v) list \<Rightarrow> (nat \<times> 'v) list" where
  "mapSet k v [] = [(k, v)]"
| "mapSet k v ((k', v') # kvs) = (if k' = k then (k, v) # kvs else (k', v') # mapSet k v kvs)"

definition newEthereumIndexer :: "nat \<Rightarrow> EthereumIndexer" where
  "newEthereumIndexer cid =
     \<lparr> isRunning = False, lastProcessedBlock = 0, listeners = 0, this_chainId = cid \<rparr>"

fun initializeEthereumIndexers ::
  "IndexerConfig list \<Rightarrow> (nat \<times> EthereumIndexer) list \<Rightarrow> (nat \<times> EthereumIndexer) list" where
  "initializeEthereumIndexers [] m = m"
| "initializeEthereumIndexers (config # configs) m =
     initializeEthereumIndexers configs
       (if cfg_enabled config \<and> cfg_contractAddress config \<noteq> []
        then mapSet (cfg_chainId config) (newEthereumIndexer (cfg_chainId config)) m
        else m)"

definition newIndexerManager :: "IndexerConfig list \<Rightarrow> IndexerManager" where
  "newIndexerManager indexerConfigs =
     \<lparr> pushChainIndexer = \<lparr> isRunning = False, lastProcessedBlock = 0, listeners = 0 \<rparr>,
       ethereumIndexers = initializeEthereumIndexers indexerConfigs [],
       m_isRunning = False \<rparr>"

definition startAll :: "(nat \<Rightarrow> chain) \<Rightarrow> IndexerManager \<Rightarrow> IndexerManager" where
  "startAll clients m =
     (if m_isRunning m then m
      else m\<lparr> m_isRunning := True,
              pushChainIndexer := snd (push_start (clients 42101) (pushChainIndexer m)),
              ethereumIndexers :=
                map (\<lambda>(cid, ix). (cid, snd (eth_start (clients cid) ix))) (ethereumIndexers m) \<rparr>)"

definition stopAll :: "IndexerManager \<Rightarrow> IndexerManager" where
  "stopAll m =
     (if \<not> m_isRunning m then m
      else m\<lparr> m_isRunning := False,
              pushChainIndexer := push_stop (pushChainIndexer m),
              ethereumIndexers := map (\<lambda>(cid, ix). (cid, eth_stop ix)) (ethereumIndexers m) \<rparr>)"

definition restartAll :: "(nat \<Rightarrow> chain) \<Rightarrow> IndexerManager \<Rightarrow> IndexerManager" where
  "restartAll clients m = startAll clients (stopAll m)"

definition startIndexer ::
  "(nat \<Rightarrow> chain) \<Rightarrow> nat \<Rightarrow> IndexerManager \<Rightarrow> error option \<times> IndexerManager" where
  "startIndexer clients cid m =
     (if cid = 42101 then
        (case push_start (clients cid) (pushChainIndexer m) of
           (r, ix) \<Rightarrow> (r, m\<lparr>pushChainIndexer := ix\<rparr>))
      else
        (case map_of (ethereumIndexers m) cid of
           Some indexer \<Rightarrow>
             (case eth_start (clients cid) indexer of
                (r, ix) \<Rightarrow> (r, m\<lparr>ethereumIndexers := mapSet cid ix (ethereumIndexers m)\<rparr>))
         | None \<Rightarrow> (Some (Error (''No indexer configured for chain '' @ show_nat cid)), m)))"

definition stopIndexer :: "nat \<Rightarrow> IndexerManager \<Rightarrow> error option \<times> IndexerManager" where
  "stopIndexer cid m =
     (if cid = 42101 then (None, m\<lparr>pushChainIndexer := push_stop (pushChainIndexer m)\<rparr>)
      else
        (case map_of (ethereumIndexers m) cid of
           Some indexer \<Rightarrow>
             (None, m\<lparr>ethereumIndexers := mapSet cid (eth_stop indexer) (ethereumIndexers m)\<rparr>)
         | None \<Rightarrow> (Some (Error (''No indexer configured for chain '' @ show_nat cid)), m)))"

subsection \<open>Sequences of backfill ticks\<close>

definition push_ticks ::
  "string \<Rightarrow> (jsnum \<Rightarrow> string) \<Rightarrow> (chain \<times> nat) list \<Rightarrow> indexer \<times> store \<Rightarrow> indexer \<times> store" where
  "push_ticks contract toStr ticks st =
     foldl (\<lambda>st' tick. push_processBlocks contract toStr (fst tick) (snd tick) st') st ticks"

definition eth_ticks ::
  "(chain \<times> nat) list \<Rightarrow> EthereumIndexer \<times> store \<Rightarrow> EthereumIndexer \<times> store" where
  "eth_ticks ticks st = foldl (\<lambda>st' tick. eth_processBlocks (fst tick) (snd tick) st') st ticks"

section \<open>Concrete scenarios\<close>

text \<open>
  The inputs at which the properties below are exercised: an application with one
  pending invoice in USDC (both identified by UUIDs, as the schema has them), chain
  clients that answer every lookup, with and without a receipt, a chain client whose
  every call throws, and logs as the contract emits them.
\<close>

definition invoiceI :: "string \<Rightarrow> invoice" where
  "invoiceI due =
     \<lparr> i_id = ''6f1c1e0a-3b5d-4c8e-9a40-0d2b7c9e1a11'',
       i_appId = ''a3d9f7c2-58e4-4b16-8f0a-5c1e2d3b4a99'',
       i_amount = due, i_currency = ''USDC'',
       i_status = ''pending'', i_paidAt = None, i_updatedAt = 0 \<rparr>"

definition storeWithInvoice :: "string \<Rightarrow> store" where
  "storeWithInvoice due =
     \<lparr> invoices = [invoiceI due], payments = [], transactions = [],
       apps = [''a3d9f7c2-58e4-4b16-8f0a-5c1e2d3b4a99''] \<rparr>"

definition storeWithApp :: store where
  "storeWithApp =
     \<lparr> invoices = [], payments = [], transactions = [],
       apps = [''a3d9f7c2-58e4-4b16-8f0a-5c1e2d3b4a99''] \<rparr>"

definition emptyStore :: store where
  "emptyStore = \<lparr> invoices = [], payments = [], transactions = [], apps = [] \<rparr>"

text \<open>A chain at block height \<open>h\<close> with no receipt for any hash and no log in any range.\<close>

definition quietChain :: "nat \<Rightarrow> chain" where
  "quietChain h =
     \<lparr> getBlockNumber = Returns h,
       getTransactionReceipt = (\<lambda>_. Returns None),
       getTransaction = (\<lambda>_. Returns None),
       queryPaymentReceived = (\<lambda>_ _. Returns []),
       queryWithdrawalExecuted = (\<lambda>_ _. Returns []),
       queryFeeCollected = (\<lambda>_ _. Returns []),
       queryCrossChainPaymentInitiated = (\<lambda>_ _. Returns []) \<rparr>"

text \<open>
  A chain at block height \<open>h\<close> on which every transaction is mined: its receipt reports
  21000 gas used, at a gas price of 1 gwei.
\<close>

definition minedChain :: "nat \<Rightarrow> chain" where
  "minedChain h =
     (quietChain h)\<lparr> getTransactionReceipt := (\<lambda>_. Returns (Some 21000)),
                      getTransaction := (\<lambda>_. Returns (Some (Some 1000000000))) \<rparr>"

definition failingChain :: chain where
  "failingChain =
     \<lparr> getBlockNumber = Throws,
       getTransactionReceipt = (\<lambda>_. Throws),
       getTransaction = (\<lambda>_. Throws),
       queryPaymentReceived = (\<lambda>_ _. Throws),
       queryWithdrawalExecuted = (\<lambda>_ _. Throws),
       queryFeeCollected = (\<lambda>_ _. Throws),
       queryCrossChainPaymentInitiated = (\<lambda>_ _. Throws) \<rparr>"

definition paymentLog :: "nat \<Rightarrow> string \<Rightarrow> PaymentReceivedArgs EventLog" where
  "paymentLog paid h =
     \<lparr> args = (''6f1c1e0a-3b5d-4c8e-9a40-0d2b7c9e1a11'', ''0xpayer'', paid, ''USDC''),
       transactionHash = h,
       log_blockNumber = 101, log_blockHash = ''0xb101'' \<rparr>"

definition withdrawalLog :: "WithdrawalExecutedArgs EventLog" where
  "withdrawalLog =
     \<lparr> args = (''a3d9f7c2-58e4-4b16-8f0a-5c1e2d3b4a99'', ''0xrecipient'', 40, ''USDC''),
       transactionHash = ''0xdef'',
       log_blockNumber = 102, log_blockHash = ''0xb102'' \<rparr>"

definition feeLog :: "FeeCollectedArgs EventLog" where
  "feeLog =
     \<lparr> args = (''a3d9f7c2-58e4-4b16-8f0a-5c1e2d3b4a99'', 3, 2, ''USDC''),
       transactionHash = ''0xfee'',
       log_blockNumber = 103, log_blockHash = ''0xb103'' \<rparr>"

definition crossChainLog :: "CrossChainPaymentInitiatedArgs EventLog" where
  "crossChainLog =
     \<lparr> args = (''6f1c1e0a-3b5d-4c8e-9a40-0d2b7c9e1a11'', ''0xpayer'', 100, ''USDC'', 42101),
       transactionHash = ''0xccc'',
       log_blockNumber = 104, log_blockHash = ''0xb104'' \<rparr>"

text \<open>
  A stand-in for \<^verbatim>\<open>Number.prototype.toString\<close> that is right on the non-negative integers
  below \<open>2^53\<close>, which print as their decimal digits.
\<close>

definition integerToString :: "jsnum \<Rightarrow> string" where
  "integerToString x =
     (case x of
        NaN \<Rightarrow> ''NaN''
      | PosInf \<Rightarrow> ''Infinity''
      | NegInf \<Rightarrow> ''-Infinity''
      | Fin r \<Rightarrow> show_nat (nat \<lfloor>r\<rfloor>))"

text \<open>A running watcher whose cursor is at block 100.\<close>

definition runningAt100 :: indexer where
  "runningAt100 = \<lparr> isRunning = True, lastProcessedBlock = 100, listeners = 3 \<rparr>"

definition ethRunningAt100 :: EthereumIndexer where
  "ethRunningAt100 =
     \<lparr> isRunning = True, lastProcessedBlock = 100, listeners = 2, this_chainId = 1 \<rparr>"

section \<open>Properties of the number model\<close>

lemma ilog2_bounds:
  assumes "0 < x"
  shows "2 powi (ilog2 x) \<le> x \<and> x < 2 powi (ilog2 x + 1)"
proof -
  obtain n d where q: "quotient_of x = (n, d)" by (cases "quotient_of x")
  have d: "0 < d" using q by (rule quotient_of_denom_pos)
  have x: "x = of_int n / of_int d" using q by (rule quotient_of_div)
  have n: "0 < n" using assms d x by (simp add: zero_less_divide_iff)
  define k where "k = bitlen n - bitlen d"
  have bn: "2 ^ nat (bitlen n - 1) \<le> n" "n < 2 ^ nat (bitlen n)"
    using bitlen_bounds [OF n] by auto
  have bd: "2 ^ nat (bitlen d - 1) \<le> d" "d < 2 ^ nat (bitlen d)"
    using bitlen_bounds [OF d] by auto
  have pn: "0 < bitlen n" using n bitlen_nonneg [of n] bitlen_eq_zero_iff [of n] by linarith
  have pd: "0 < bitlen d" using d bitlen_nonneg [of d] bitlen_eq_zero_iff [of d] by linarith
  have rn: "(2::rat) powi (bitlen n - 1) \<le> of_int n" "of_int n < (2::rat) powi (bitlen n)"
  proof -
    have "(of_int (2 ^ nat (bitlen n - 1)) :: rat) \<le> of_int n" using bn(1) by (simp only: of_int_le_iff)
    then show "(2::rat) powi (bitlen n - 1) \<le> of_int n" using pn by (simp add: power_int_def)
    have "(of_int n :: rat) < of_int (2 ^ nat (bitlen n))" using bn(2) by (simp only: of_int_less_iff)
    then show "of_int n < (2::rat) powi (bitlen n)" using pn by (simp add: power_int_def)
  qed
  have rd: "(2::rat) powi (bitlen d - 1) \<le> of_int d" "of_int d < (2::rat) powi (bitlen d)"
  proof -
    have "(of_int (2 ^ nat (bitlen d - 1)) :: rat) \<le> of_int d" using bd(1) by (simp only: of_int_le_iff)
    then show "(2::rat) powi (bitlen d - 1) \<le> of_int d" using pd by (simp add: power_int_def)
    have "(of_int d :: rat) < of_int (2 ^ nat (bitlen d))" using bd(2) by (simp only: of_int_less_iff)
    then show "of_int d < (2::rat) powi (bitlen d)" using pd by (simp add: power_int_def)
  qed
  have dpos: "(0::rat) < of_int d" using d by simp
  have up: "x < 2 powi (k + 1)"
  proof -
    have "of_int n < (2::rat) powi (k + 1) * 2 powi (bitlen d - 1)"
      using rn(2) by (simp add: k_def power_int_add [symmetric])
    also have "\<dots> \<le> 2 powi (k + 1) * of_int d"
      using rd(1) by (intro mult_left_mono) simp_all
    finally show ?thesis using dpos by (simp add: x pos_divide_less_eq)
  qed
  have lo: "2 powi (k - 1) \<le> x"
  proof -
    have "(2::rat) powi (k - 1) * of_int d \<le> 2 powi (k - 1) * 2 powi (bitlen d)"
      using rd(2) by (intro mult_left_mono) simp_all
    also have "\<dots> = 2 powi (bitlen n - 1)"
      by (simp add: k_def power_int_add [symmetric])
    also have "\<dots> \<le> of_int n" by (rule rn(1))
    finally show ?thesis using dpos by (simp add: x pos_le_divide_eq)
  qed
  show ?thesis
  proof (cases "2 powi k \<le> x")
    case True
    then have "ilog2 x = k" by (simp add: ilog2_def q k_def)
    with True up show ?thesis by simp
  next
    case False
    then have "ilog2 x = k - 1" by (simp add: ilog2_def q k_def)
    with False lo show ?thesis by simp
  qed
qed

lemma ilog2_unique:
  assumes "0 < x" "2 powi k \<le> x" "x < 2 powi (k + 1)"
  shows "ilog2 x = k"
proof -
  let ?j = "ilog2 x"
  have b: "2 powi ?j \<le> x" "x < 2 powi (?j + 1)" using ilog2_bounds [OF assms(1)] by auto
  have 1: "k < ?j + 1"
  proof (rule ccontr)
    assume "\<not> k < ?j + 1"
    then have "?j + 1 \<le> k" by simp
    then have "(2::rat) powi (?j + 1) \<le> 2 powi k" by (intro power_int_increasing) simp_all
    with assms(2) b(2) show False by simp
  qed
  have 2: "?j < k + 1"
  proof (rule ccontr)
    assume "\<not> ?j < k + 1"
    then have "k + 1 \<le> ?j" by simp
    then have "(2::rat) powi (k + 1) \<le> 2 powi ?j" by (intro power_int_increasing) simp_all
    with assms(3) b(1) show False by simp
  qed
  from 1 2 show ?thesis by simp
qed


lemma roundTiesToEven_of_int: "roundTiesToEven (of_int z) = z"
  by (simp add: roundTiesToEven_def)

lemma round64_of_nat:
  assumes "n \<le> 2 ^ 53"
  shows "round64 (of_nat n) = Fin (of_nat n)"
proof (cases "n = 0")
  case True
  then show ?thesis by (simp add: round64_def)
next
  case False
  define x :: rat where "x = of_nat n"
  define k where "k = ilog2 x"
  have xpos: "0 < x" using False by (simp add: x_def)
  have x1: "1 \<le> x" using False by (simp add: x_def Suc_leI)
  have xle: "x \<le> 2 ^ 53"
  proof -
    have "(of_nat n :: rat) \<le> of_nat (2 ^ 53)" using assms by (simp only: of_nat_le_iff)
    then show ?thesis by (simp add: x_def)
  qed
  have b: "2 powi k \<le> x" "x < 2 powi (k + 1)"
    using ilog2_bounds [OF xpos] by (simp_all add: k_def)
  have k0: "0 \<le> k"
  proof (rule ccontr)
    assume "\<not> 0 \<le> k"
    then have "k + 1 \<le> 0" by simp
    then have "(2::rat) powi (k + 1) \<le> 2 powi 0" by (intro power_int_increasing) simp_all
    with b(2) x1 show False by simp
  qed
  have k53: "k \<le> 53"
  proof (rule ccontr)
    assume "\<not> k \<le> 53"
    then have "54 \<le> k" by simp
    then have "(2::rat) powi 54 \<le> 2 powi k" by (intro power_int_increasing) simp_all
    with b(1) xle show False by simp
  qed
  define e where "e = max (k - 52) (- 1074)"
  have e: "e = k - 52" using k0 by (simp add: e_def)
  have r: "of_int (roundTiesToEven (x / 2 powi e)) * 2 powi e = x"
  proof (cases "k = 53")
    case True
    have "2 ^ 53 \<le> x" using b(1) True by simp
    with xle have "x = 2 ^ 53" by simp
    then have "x / 2 powi e = of_int (2 ^ 52)" by (simp add: e True)
    then have "roundTiesToEven (x / 2 powi e) = 2 ^ 52" by (simp only: roundTiesToEven_of_int)
    then show ?thesis using \<open>x = 2 ^ 53\<close> by (simp add: e True)
  next
    case False
    with k53 have le: "e \<le> 0" by (simp add: e)
    have p: "(2::rat) powi e = 1 / 2 ^ nat (- e)"
      using le by (simp add: power_int_def field_simps)
    have "x / 2 powi e = of_int (int n * 2 ^ nat (- e))" by (simp add: p x_def)
    then have "roundTiesToEven (x / 2 powi e) = int n * 2 ^ nat (- e)"
      by (simp only: roundTiesToEven_of_int)
    then show ?thesis by (simp add: p x_def)
  qed
  have "\<not> (2::rat) ^ 1024 \<le> x" using xle by simp
  then show ?thesis
    using xpos r unfolding round64_def Let_def e_def k_def x_def [symmetric]
    by (simp add: abs_of_pos)
qed

lemma round64_down:
  assumes "0 < x" and "2 powi k \<le> x" and "x < 2 powi (k + 1)" and "- 1022 \<le> k"
    and "of_int q \<le> x * 2 powi (52 - k)" and "x * 2 powi (52 - k) < of_int q + 1 / 2"
    and "of_int q * 2 powi (k - 52) < (2::rat) ^ 1024"
  shows "round64 x = Fin (of_int q * 2 powi (k - 52))"
proof -
  have k: "ilog2 x = k" using assms(1-3) by (rule ilog2_unique)
  have e: "max (k - 52) (- 1074) = k - 52" using assms(4) by simp
  have d: "x / 2 powi (k - 52) = x * 2 powi (52 - k)"
    by (simp add: power_int_diff field_simps)
  have fl: "\<lfloor>x * 2 powi (52 - k)\<rfloor> = q"
    by (rule floor_unique) (use assms(5,6) in simp_all)
  have "roundTiesToEven (x * 2 powi (52 - k)) = q"
    using assms(6) by (simp add: roundTiesToEven_def fl)
  then show ?thesis
    using assms(1,7) by (simp add: round64_def abs_of_pos k e d)
qed

lemma round64_example: "round64 (100000000000000001 / 100000000) = Fin 1000000000"
proof -
  have "round64 (100000000000000001 / 100000000)
          = Fin (of_int 8388608000000000 * 2 powi (29 - 52))"
    by (rule round64_down) simp_all
  then show ?thesis by simp
qed

lemma round64_up:
  assumes "0 < x" and "2 powi k \<le> x" and "x < 2 powi (k + 1)" and "- 1022 \<le> k"
    and "of_int q + 1 / 2 < x * 2 powi (52 - k)" and "x * 2 powi (52 - k) < of_int q + 1"
    and "(of_int q + 1) * 2 powi (k - 52) < (2::rat) ^ 1024"
  shows "round64 x = Fin ((of_int q + 1) * 2 powi (k - 52))"
proof -
  have k: "ilog2 x = k" using assms(1-3) by (rule ilog2_unique)
  have e: "max (k - 52) (- 1074) = k - 52" using assms(4) by simp
  have d: "x / 2 powi (k - 52) = x * 2 powi (52 - k)"
    by (simp add: power_int_diff field_simps)
  have fl: "\<lfloor>x * 2 powi (52 - k)\<rfloor> = q"
    by (rule floor_unique) (use assms(5,6) in simp_all)
  have "roundTiesToEven (x * 2 powi (52 - k)) = q + 1"
    using assms(5) by (simp add: roundTiesToEven_def fl)
  then show ?thesis
    using assms(1,7) by (simp add: round64_def abs_of_pos k e d)
qed

text \<open>The model gives the familiar binary64 value of one tenth.\<close>

lemma round64_tenth: "round64 (1 / 10) = Fin (3602879701896397 / 36028797018963968)"
proof -
  have "round64 (1 / 10) = Fin ((of_int 7205759403792793 + 1) * 2 powi (- 4 - 52))"
    by (rule round64_up) simp_all
  then show ?thesis by simp
qed

section \<open>Reading back a rendered integer\<close>

lemma digitChar_props:
  assumes "d < 10"
  shows "isDecimalDigit (digitChar d)" and "digitValue (digitChar d) = d"
    and "\<not> isWhiteSpace (digitChar d)" and "digitChar d \<noteq> CHR ''-''"
    and "digitChar d \<noteq> CHR ''+''" and "digitChar d \<noteq> CHR ''I''"
proof -
  have "d \<in> {0, 1, 2, 3, 4, 5, 6, 7, 8, 9}" using assms by auto
  then show "isDecimalDigit (digitChar d)" and "digitValue (digitChar d) = d"
    and "\<not> isWhiteSpace (digitChar d)" and "digitChar d \<noteq> CHR ''-''"
    and "digitChar d \<noteq> CHR ''+''" and "digitChar d \<noteq> CHR ''I''"
    by (auto simp: digitChar_def isDecimalDigit_def digitValue_def isWhiteSpace_def)
qed

lemma show_nat_digits: "c \<in> set (show_nat n) \<Longrightarrow> isDecimalDigit c"
proof (induction n rule: show_nat.induct)
  case (1 n)
  show ?case
  proof (cases "n < 10")
    case True
    then show ?thesis using "1.prems" by (simp add: show_nat.simps [of n] digitChar_props)
  next
    case False
    then show ?thesis
      using "1.prems" "1.IH" by (auto simp: show_nat.simps [of n] digitChar_props)
  qed
qed

lemma show_nat_hd: "\<exists>d cs. d < 10 \<and> show_nat n = digitChar d # cs"
proof (induction n rule: show_nat.induct)
  case (1 n)
  show ?case
  proof (cases "n < 10")
    case True
    then show ?thesis by (auto simp: show_nat.simps [of n])
  next
    case False
    then obtain d cs where "d < 10" "show_nat (n div 10) = digitChar d # cs"
      using "1.IH" by auto
    then show ?thesis using False by (auto simp: show_nat.simps [of n])
  qed
qed

lemma digitsValue_snoc: "digitsValue (ds @ [c]) = 10 * digitsValue ds + digitValue c"
  by (simp add: digitsValue_def)

lemma digitsValue_show_nat: "digitsValue (show_nat n) = n"
proof (induction n rule: show_nat.induct)
  case (1 n)
  show ?case
  proof (cases "n < 10")
    case True
    then show ?thesis by (simp add: show_nat.simps [of n] digitsValue_def digitChar_props)
  next
    case False
    then show ?thesis
      using "1.IH" by (simp add: show_nat.simps [of n] digitsValue_snoc digitChar_props)
  qed
qed

lemma StrDecimalLiteral_show_nat: "StrDecimalLiteral (show_nat n) = MV (of_nat n)"
proof -
  obtain d cs where d: "d < 10" and s: "show_nat n = digitChar d # cs"
    using show_nat_hd by blast
  note p = digitChar_props [OF d]
  have all: "\<forall>c\<in>set (digitChar d # cs). isDecimalDigit c"
    using show_nat_digits [of _ n] by (simp add: s)
  have t: "takeWhile isDecimalDigit (digitChar d # cs) = digitChar d # cs"
    using all by (simp only: takeWhile_eq_all_conv)
  have r: "dropWhile isDecimalDigit (digitChar d # cs) = []"
    using all by (simp only: dropWhile_eq_Nil_conv)
  have w: "dropWhile isWhiteSpace (digitChar d # cs) = digitChar d # cs"
    using p(3) by simp
  have i: "take 8 (digitChar d # cs) \<noteq> ''Infinity''"
    using p(6) by (simp add: take_Cons')
  have v: "digitsValue (digitChar d # cs) = n"
    using digitsValue_show_nat [of n] by (simp add: s)
  show ?thesis
    unfolding s StrDecimalLiteral_def Let_def w
    using p(4,5) i
    by (simp add: t r v exponentPart_def del: takeWhile.simps dropWhile.simps)
qed

section \<open>What the columns accept of a rendered integer\<close>

lemma digitChar_plain:
  assumes "d < 10"
  shows "lowerAscii (digitChar d) \<noteq> CHR ''n''" and "digitChar d \<noteq> CHR ''.''"
    and "digitChar d \<noteq> CHR 0x00"
proof -
  have "d \<in> {0, 1, 2, 3, 4, 5, 6, 7, 8, 9}" using assms by auto
  then show "lowerAscii (digitChar d) \<noteq> CHR ''n''" and "digitChar d \<noteq> CHR ''.''"
    and "digitChar d \<noteq> CHR 0x00"
    by (auto simp: digitChar_def lowerAscii_def)
qed

lemma isNumericNaN_show_nat: "\<not> isNumericNaN (show_nat n)"
proof -
  obtain d cs where d: "d < 10" and s: "show_nat n = digitChar d # cs"
    using show_nat_hd by blast
  have w: "dropWhile isWhiteSpace (digitChar d # cs) = digitChar d # cs"
    using digitChar_props(3) [OF d] by simp
  show ?thesis
    unfolding s isNumericNaN_def Let_def w
    using digitChar_plain(1) [OF d] by (simp add: take_Cons')
qed

lemma numericValue_show_nat: "numericValue (show_nat n) = Some (of_nat n)"
proof -
  obtain d cs where d: "d < 10" and s: "show_nat n = digitChar d # cs"
    using show_nat_hd by blast
  note p = digitChar_props [OF d]
  have all: "\<forall>c\<in>set (digitChar d # cs). isDecimalDigit c"
    using show_nat_digits [of _ n] by (simp add: s)
  have t: "takeWhile isDecimalDigit (digitChar d # cs) = digitChar d # cs"
    using all by (simp only: takeWhile_eq_all_conv)
  have r: "dropWhile isDecimalDigit (digitChar d # cs) = []"
    using all by (simp only: dropWhile_eq_Nil_conv)
  have w: "dropWhile isWhiteSpace (digitChar d # cs) = digitChar d # cs"
    using p(3) by simp
  have v: "digitsValue (digitChar d # cs) = n"
    using digitsValue_show_nat [of n] by (simp add: s)
  show ?thesis
    unfolding s numericValue_def Let_def w
    using p(1,4,5) digitChar_plain(2) [OF d]
    by (simp add: t r v del: takeWhile.simps dropWhile.simps)
qed

lemma roundHalfAway_of_nat: "roundHalfAway (of_nat m) = int m"
proof -
  have "\<lfloor>(of_nat m :: rat) + 1 / 2\<rfloor> = int m"
    by (rule floor_unique) simp_all
  then show ?thesis by (simp add: roundHalfAway_def)
qed

lemma numericFits_show_nat: "numericFits p s (show_nat n) = (n * 10 ^ s < 10 ^ p)"
proof -
  have "(of_nat n :: rat) * 10 ^ s = of_nat (n * 10 ^ s)" by simp
  then have "roundHalfAway (of_nat n * 10 ^ s) = int (n * 10 ^ s)"
    by (simp only: roundHalfAway_of_nat)
  moreover have "(int (n * 10 ^ s) < 10 ^ p) = (n * 10 ^ s < 10 ^ p)"
    by (metis of_nat_less_iff of_nat_numeral of_nat_power)
  ultimately show ?thesis
    by (simp add: numericFits_def isNumericNaN_show_nat numericValue_show_nat)
qed

lemma numericFits_18_8_show_nat: "numericFits 18 8 (show_nat n) = (n < 10000000000)"
  by (simp add: numericFits_show_nat)

lemma numericFits_18_0_show_nat: "numericFits 18 0 (show_nat n) = (n < 1000000000000000000)"
  by (simp add: numericFits_show_nat)

lemma show_nat_0: "show_nat 0 = ''0''"
  by (simp add: show_nat.simps [of 0] digitChar_def)

lemma numericFits_0: "numericFits 18 8 ''0''" "numericFits 18 0 ''0''"
  using numericFits_show_nat [of 18 8 0] numericFits_show_nat [of 18 0 0]
  by (simp_all add: show_nat_0)

section \<open>The comparison and the sum in binary64\<close>

lemma round64_not_NaN: "round64 x \<noteq> NaN"
  by (simp add: round64_def Let_def)

lemma js_ge_refl: "a \<noteq> NaN \<Longrightarrow> js_ge a a"
  by (cases a) simp_all

lemma amountCovers_same_value:
  assumes "StrDecimalLiteral a = MV x" and "StrDecimalLiteral b = MV x"
  shows "amountCovers a b"
  using assms by (simp add: amountCovers_def parseFloat_def js_ge_refl round64_not_NaN)

lemma parseFloat_of_nat:
  assumes "StrDecimalLiteral a = MV (of_nat m)" and "m \<le> 2 ^ 53"
  shows "parseFloat a = Fin (of_nat m)"
  using assms by (simp add: parseFloat_def round64_of_nat)

lemma amountCovers_of_nat:
  assumes "StrDecimalLiteral a = MV (of_nat m)" and "StrDecimalLiteral b = MV (of_nat n)"
    and "m \<le> 2 ^ 53" and "n \<le> 2 ^ 53"
  shows "amountCovers a b = (n \<le> m)"
  using assms by (simp add: amountCovers_def parseFloat_of_nat)

lemma totalFee_of_nat:
  assumes "StrDecimalLiteral a = MV (of_nat m)" and "StrDecimalLiteral b = MV (of_nat n)"
    and "m + n \<le> 2 ^ 53"
  shows "totalFee toStr a b = toStr (Fin (of_nat (m + n)))"
proof -
  have "m \<le> 2 ^ 53" "n \<le> 2 ^ 53" using assms(3) by simp_all
  then have "parseFloat a = Fin (of_nat m)" "parseFloat b = Fin (of_nat n)"
    using assms(1,2) by (simp_all add: parseFloat_of_nat)
  moreover have "round64 (of_nat m + of_nat n) = Fin (of_nat (m + n))"
    using round64_of_nat [OF assms(3)] by simp
  ultimately show ?thesis by (simp add: totalFee_def)
qed

lemmas parse_defs = StrDecimalLiteral_def isWhiteSpace_def isDecimalDigit_def
  digitsValue_def digitValue_def exponentPart_def

lemma parse_100: "StrDecimalLiteral ''100'' = MV (of_nat 100)"
  by (simp add: parse_defs)

lemma parse_100_8: "StrDecimalLiteral ''100.00000000'' = MV (of_nat 100)"
  by (simp add: parse_defs)

lemma parse_60: "StrDecimalLiteral ''60'' = MV (of_nat 60)"
  by (simp add: parse_defs)

lemma parse_3: "StrDecimalLiteral ''3'' = MV (of_nat 3)"
  by (simp add: parse_defs)

lemma parse_2: "StrDecimalLiteral ''2'' = MV (of_nat 2)"
  by (simp add: parse_defs)

lemma parse_1e9: "StrDecimalLiteral ''1000000000'' = MV (of_nat 1000000000)"
  by (simp add: parse_defs)

lemma parse_1e9_8:
  "StrDecimalLiteral ''1000000000.00000001'' = MV (100000000000000001 / 100000000)"
  by (simp add: parse_defs)

lemma show_nat_100: "show_nat 100 = ''100''"
  by (simp add: show_nat.simps digitChar_def)

lemma show_nat_60: "show_nat 60 = ''60''"
  by (simp add: show_nat.simps digitChar_def)

lemma show_nat_1e9: "show_nat 1000000000 = ''1000000000''"
  by (simp add: show_nat.simps digitChar_def)

lemma covers_100: "amountCovers ''100'' ''100.00000000''"
  using amountCovers_of_nat [OF parse_100 parse_100_8] by simp

lemma covers_not_60: "\<not> amountCovers ''60'' ''100.00000000''"
  using amountCovers_of_nat [OF parse_60 parse_100_8] by simp

lemma covers_1e9: "amountCovers ''1000000000'' ''1000000000.00000001''"
proof -
  have "parseFloat ''1000000000'' = Fin 1000000000"
    using parseFloat_of_nat [OF parse_1e9] by simp
  moreover have "parseFloat ''1000000000.00000001'' = Fin 1000000000"
    by (simp add: parseFloat_def parse_1e9_8 round64_example)
  ultimately show ?thesis by (simp add: amountCovers_def)
qed

text \<open>
  C8, as the code has it. The comparison that decides the paid transition and the fee
  total are computed on binary64 numbers. They agree with exact decimal arithmetic
  whenever the amounts denote integers up to \<open>2^53\<close> (for the sum: whenever the exact sum
  is at most \<open>2^53\<close>), in particular for the decimal rendering of such an on-chain
  integer; the fee total is the string \<^verbatim>\<open>Number.prototype.toString\<close> gives for that sum.
\<close>

theorem binary64_exact_on_small_integers:
  assumes "StrDecimalLiteral a = MV (of_nat m)" and "StrDecimalLiteral b = MV (of_nat n)"
    and "m \<le> 2 ^ 53" and "n \<le> 2 ^ 53"
  shows "amountCovers a b = (n \<le> m)
       \<and> amountCovers (show_nat m) b = (n \<le> m)
       \<and> (m + n \<le> 2 ^ 53 \<longrightarrow>
            totalFee toStr a b = toStr (Fin (of_nat (m + n)))
            \<and> totalFee toStr (show_nat m) (show_nat n) = toStr (Fin (of_nat (m + n))))"
  using amountCovers_of_nat [OF assms]
    amountCovers_of_nat [OF StrDecimalLiteral_show_nat assms(2-4)]
    totalFee_of_nat [OF assms(1,2)]
    totalFee_of_nat [OF StrDecimalLiteral_show_nat StrDecimalLiteral_show_nat]
  by simp

theorem binary64_exact_on_small_integers_witness:
  "amountCovers ''100'' ''100.00000000''
   \<and> \<not> amountCovers ''60'' ''100.00000000''
   \<and> totalFee integerToString ''3'' ''2'' = ''5''"
proof -
  have 1: "(100::nat) \<le> 2 ^ 53" "(60::nat) \<le> 2 ^ 53" "(3::nat) \<le> 2 ^ 53"
    "(2::nat) \<le> 2 ^ 53" by simp_all
  have 5: "show_nat 5 = ''5''" by (simp add: show_nat.simps digitChar_def)
  show ?thesis
    using binary64_exact_on_small_integers [OF parse_100 parse_100_8 1(1) 1(1)]
      binary64_exact_on_small_integers [OF parse_60 parse_100_8 1(2) 1(1)]
      binary64_exact_on_small_integers [OF parse_3 parse_2 1(3) 1(4), of integerToString]
    by (simp add: integerToString_def 5)
qed

lemma round64_2_54: "round64 18014398509481985 = Fin 18014398509481984"
proof -
  have "round64 18014398509481985 = Fin (of_int 4503599627370496 * 2 powi (54 - 52))"
    by (rule round64_down) simp_all
  then show ?thesis by simp
qed

text \<open>
  C8 as stated fails. A payment of 1000000000 is less than an invoice amount of
  1000000000.00000001, yet both round to the same binary64 number and the comparison
  holds. The fees 18014398509481985 and 0 add up to 18014398509481984.
\<close>

theorem binary64_differs_from_decimal:
  "StrDecimalLiteral ''1000000000'' = MV 1000000000
   \<and> StrDecimalLiteral ''1000000000.00000001'' = MV (100000000000000001 / 100000000)
   \<and> (1000000000 :: rat) < 100000000000000001 / 100000000
   \<and> amountCovers ''1000000000'' ''1000000000.00000001''
   \<and> StrDecimalLiteral ''18014398509481985'' = MV 18014398509481985
   \<and> StrDecimalLiteral ''0'' = MV 0
   \<and> js_add (parseFloat ''18014398509481985'') (parseFloat ''0'') = Fin 18014398509481984"
proof -
  have a: "StrDecimalLiteral ''18014398509481985'' = MV 18014398509481985"
    by (simp add: parse_defs)
  have b: "StrDecimalLiteral ''0'' = MV 0"
    by (simp add: parse_defs)
  have "round64 18014398509481984 = Fin (of_int 4503599627370496 * 2 powi (54 - 52))"
    by (rule round64_down) simp_all
  then have c: "round64 18014398509481984 = Fin 18014398509481984" by simp
  have "js_add (parseFloat ''18014398509481985'') (parseFloat ''0'') = Fin 18014398509481984"
    by (simp add: parseFloat_def a b round64_2_54 c round64_def [of 0])
  then show ?thesis
    using parse_1e9 parse_1e9_8 covers_1e9 a b by simp
qed

section \<open>The rows of the scenarios and the columns\<close>

lemma numericFits_literals:
  "numericFits 18 8 ''100''" "numericFits 18 8 ''60''" "numericFits 18 8 ''1000000000''"
  using numericFits_18_8_show_nat [of 100] numericFits_18_8_show_nat [of 60]
    numericFits_18_8_show_nat [of 1000000000]
  by (simp_all add: show_nat_100 show_nat_60 show_nat_1e9)

lemmas fits_defs = insertPayment_def insertTransaction_def paymentFits_def transactionFits_def
  varcharFits_def integerFits_def

lemmas fits_facts = numericFits_0 numericFits_literals numericFits_18_8_show_nat
  numericFits_18_0_show_nat

lemma show_nat_gas: "show_nat 21000 = ''21000''"
  and show_nat_gasFee: "show_nat 21000000000000 = ''21000000000000''"
  by (simp_all add: show_nat.simps digitChar_def)

lemma gasFee_rejected: "\<not> numericFits 18 8 ''21000000000000''"
  using numericFits_18_8_show_nat [of 21000000000000] by (simp add: show_nat_gasFee)

section \<open>What one handler call does to the store\<close>

lemma push_gasInfo_fields:
  assumes "push_gasInfo c e = Returns e'"
  shows "txHash e' = txHash e" and "invoiceId e' = invoiceId e" and "amount e' = amount e"
    and "payer e' = payer e" and "currency e' = currency e"
  using assms
  by (auto simp: push_gasInfo_def split: rpc.splits option.splits)

lemma eth_gasInfo_fields:
  assumes "eth_gasInfo c e = Returns e'"
  shows "txHash e' = txHash e" and "invoiceId e' = invoiceId e" and "amount e' = amount e"
    and "payer e' = payer e" and "currency e' = currency e"
  using assms
  by (auto simp: eth_gasInfo_def split: rpc.splits option.splits if_splits)


lemma processPaymentEvent_first:
  assumes "push_gasInfo c e = Returns e'"
    and "find (\<lambda>p. p_txHash p = txHash e \<and> p_externalChain p = ''push-chain'') (payments s)
           = None"
    and "find (\<lambda>i. i_id i = invoiceId e) (invoices s) = Some invoice"
    and "paymentFits s (push_newPayment now e')"
  shows "payments (processPaymentEvent contract c now e s)
           = payments s @ [push_newPayment now e']"
    and "invoices (processPaymentEvent contract c now e s)
           = (if amountCovers (amount e) (i_amount invoice)
              then setInvoicePaid now (invoiceId e) (invoices s)
              else invoices s)"
    and "transactions (processPaymentEvent contract c now e s)
           = (if transactionFits s (push_paymentTransaction contract now invoice e')
              then transactions s @ [push_paymentTransaction contract now invoice e']
              else transactions s)"
  using assms push_gasInfo_fields(1-3) [OF assms(1)]
  by (simp_all add: processPaymentEvent_def Let_def insertPayment_def insertTransaction_def
        transactionFits_def)

lemma processPaymentEvent_rejected:
  assumes "push_gasInfo c e = Returns e'"
    and "\<not> paymentFits s (push_newPayment now e')"
  shows "processPaymentEvent contract c now e s = s"
  using assms
  by (simp add: processPaymentEvent_def insertPayment_def split: option.splits)

lemma processDirectPaymentEvent_throws:
  "eth_gasInfo c e = Throws \<Longrightarrow> processDirectPaymentEvent cid c now e s = s"
  by (simp add: processDirectPaymentEvent_def)

lemma processDirectPaymentEvent_rejected:
  assumes "eth_gasInfo c e = Returns e'"
    and "\<not> paymentFits s (eth_newPayment ''direct'' ''chainId'' cid now e')"
  shows "processDirectPaymentEvent cid c now e s = s"
  using assms
  by (simp add: processDirectPaymentEvent_def insertPayment_def split: option.splits)

lemma processCrossChainPaymentEvent_first:
  assumes "eth_gasInfo c e = Returns e'"
    and "find (\<lambda>i. i_id i = invoiceId e) (invoices s) = Some invoice"
    and "find (\<lambda>p. p_invoiceId p = invoiceId e \<and> p_txHash p = txHash e) (payments s) = None"
    and "paymentFits s (eth_newPayment ''cross-chain'' ''sourceChainId'' cid now e')"
  shows "payments (processCrossChainPaymentEvent cid c now e s)
           = payments s @ [eth_newPayment ''cross-chain'' ''sourceChainId'' cid now e']"
    and "transactions (processCrossChainPaymentEvent cid c now e s)
           = (if transactionFits s
                   (eth_paymentTransaction ''cross-chain'' ''sourceChainId'' cid now invoice e')
              then transactions s @
                   [eth_paymentTransaction ''cross-chain'' ''sourceChainId'' cid now invoice e']
              else transactions s)"
  using assms eth_gasInfo_fields(1,2) [OF assms(1)]
  by (simp_all add: processCrossChainPaymentEvent_def insertPayment_def insertTransaction_def
        transactionFits_def)

lemma processCrossChainPaymentEvent_rejected:
  assumes "eth_gasInfo c e = Returns e'"
    and "\<not> paymentFits s (eth_newPayment ''cross-chain'' ''sourceChainId'' cid now e')"
  shows "processCrossChainPaymentEvent cid c now e s = s"
  using assms
  by (simp add: processCrossChainPaymentEvent_def insertPayment_def split: option.splits)

lemma invoices_processCrossChainPaymentEvent:
  "invoices (processCrossChainPaymentEvent cid c now e s) = invoices s"
  by (simp add: processCrossChainPaymentEvent_def insertPayment_def insertTransaction_def
        split: rpc.splits option.splits)







section \<open>Recording a payment\<close>

text \<open>
  C1, at the failing input. A PaymentReceived log of 100 USDC for the pending invoice of
  100.00000000 is mined with 21000 gas at a gas price of 1 gwei. The receipt lookup sets
  \<^verbatim>\<open>gasFee\<close> to \<^verbatim>\<open>(receipt.gasUsed * tx.gasPrice).toString()\<close>, the fee in wei, which
  the \<^verbatim>\<open>decimal(18, 8)\<close> column \<^verbatim>\<open>gas_fee\<close> does not accept: the insert throws and the
  handler returns. The log is delivered by the subscription and again by the backfill,
  to the Push Chain watcher and to the Ethereum watcher of chain 1: the store is as it
  was, with no payment row and no ledger entry for the hash.
\<close>

theorem mined_payment_not_recorded:
  "push_gasInfo (minedChain 105) (paymentEventOfLog (paymentLog 100 ''0xabc''))
     = Returns ((paymentEventOfLog (paymentLog 100 ''0xabc''))
                  \<lparr>gasUsed := ''21000'', gasFee := ''21000000000000''\<rparr>)
   \<and> eth_gasInfo (minedChain 105) (directEventOfLog 1 (paymentLog 100 ''0xabc''))
     = Returns ((directEventOfLog 1 (paymentLog 100 ''0xabc''))
                  \<lparr>gasUsed := ''21000'', gasFee := ''21000000000000''\<rparr>)
   \<and> \<not> numericFits 18 8 ''21000000000000''
   \<and> push_deliverLog Backfill ''0xgateway'' (minedChain 106) 6 (paymentLog 100 ''0xabc'')
        (push_deliverLog Subscription ''0xgateway'' (minedChain 105) 1
           (paymentLog 100 ''0xabc'') (storeWithInvoice ''100.00000000''))
     = storeWithInvoice ''100.00000000''
   \<and> paymentsFor ''push-chain'' ''0xabc''
        (push_deliverLog Backfill ''0xgateway'' (minedChain 106) 6 (paymentLog 100 ''0xabc'')
           (push_deliverLog Subscription ''0xgateway'' (minedChain 105) 1
              (paymentLog 100 ''0xabc'') (storeWithInvoice ''100.00000000''))) = []
   \<and> ledgerFor ''payment'' ''push-chain'' ''0xabc''
        (push_deliverLog Backfill ''0xgateway'' (minedChain 106) 6 (paymentLog 100 ''0xabc'')
           (push_deliverLog Subscription ''0xgateway'' (minedChain 105) 1
              (paymentLog 100 ''0xabc'') (storeWithInvoice ''100.00000000''))) = []
   \<and> eth_deliverLog Backfill 1 (minedChain 106) 6 (paymentLog 100 ''0xabc'')
        (eth_deliverLog Subscription 1 (minedChain 105) 1
           (paymentLog 100 ''0xabc'') (storeWithInvoice ''100.00000000''))
     = storeWithInvoice ''100.00000000''
   \<and> paymentsFor ''ethereum'' ''0xabc''
        (eth_deliverLog Backfill 1 (minedChain 106) 6 (paymentLog 100 ''0xabc'')
           (eth_deliverLog Subscription 1 (minedChain 105) 1
              (paymentLog 100 ''0xabc'') (storeWithInvoice ''100.00000000''))) = []
   \<and> ledgerFor ''payment'' ''ethereum'' ''0xabc''
        (eth_deliverLog Backfill 1 (minedChain 106) 6 (paymentLog 100 ''0xabc'')
           (eth_deliverLog Subscription 1 (minedChain 105) 1
              (paymentLog 100 ''0xabc'') (storeWithInvoice ''100.00000000''))) = []"
proof -
  let ?l = "paymentLog 100 ''0xabc''"
  let ?s = "storeWithInvoice ''100.00000000''"
  have g: "push_gasInfo (minedChain h) (paymentEventOfLog ?l)
             = Returns ((paymentEventOfLog ?l)\<lparr>gasUsed := ''21000'',
                                                gasFee := ''21000000000000''\<rparr>)"
    and d: "eth_gasInfo (minedChain h) (directEventOfLog cid ?l)
             = Returns ((directEventOfLog cid ?l)\<lparr>gasUsed := ''21000'',
                                                   gasFee := ''21000000000000''\<rparr>)"
    for h cid
    by (simp_all add: push_gasInfo_def eth_gasInfo_def minedChain_def quietChain_def
          show_nat_gas show_nat_gasFee)
  have p: "processPaymentEvent ''0xgateway'' (minedChain h) now (paymentEventOfLog ?l) ?s = ?s"
    for h now
    by (rule processPaymentEvent_rejected [OF g])
       (simp add: paymentFits_def push_newPayment_def gasFee_rejected)
  have q: "processDirectPaymentEvent cid (minedChain h) now (directEventOfLog cid ?l) ?s = ?s"
    for h now cid
    by (rule processDirectPaymentEvent_rejected [OF d])
       (simp add: paymentFits_def eth_newPayment_def gasFee_rejected)
  have push: "push_deliverLog Backfill ''0xgateway'' (minedChain 106) 6 ?l
        (push_deliverLog Subscription ''0xgateway'' (minedChain 105) 1 ?l ?s) = ?s"
    by (simp add: push_deliverLog_def onPaymentReceived_def processPaymentEventFromLog_def p)
  have eth: "eth_deliverLog Backfill 1 (minedChain 106) 6 ?l
        (eth_deliverLog Subscription 1 (minedChain 105) 1 ?l ?s) = ?s"
    by (simp add: eth_deliverLog_def eth_onPaymentReceived_def q)
  have none: "paymentsFor chainName ''0xabc'' ?s = []"
    "ledgerFor ''payment'' chainName ''0xabc'' ?s = []" for chainName
    by (simp_all add: paymentsFor_def ledgerFor_def storeWithInvoice_def)
  show ?thesis
    using g [of 105] d [of 105 1] gasFee_rejected
    by (simp only: push eth none simp_thms)
qed

text \<open>
  C2, at the failing input. The Ethereum watchers of chains 1 and 137 each receive a
  PaymentReceived log for invoice \<^verbatim>\<open>I\<close> with the same transaction hash. The lookup of
  the second watcher is keyed by invoice and hash, without the chain: it finds the row
  recorded for chain 1 and records nothing for chain 137.
\<close>

theorem ethereum_lookup_ignores_chain:
  "paymentsFor ''polygon'' ''0xabc''
     (eth_deliverLog Subscription 137 (quietChain 205) 2 (paymentLog 100 ''0xabc'')
        (eth_deliverLog Subscription 1 (quietChain 105) 1 (paymentLog 100 ''0xabc'')
           (storeWithInvoice ''100.00000000''))) = []
   \<and> ledgerFor ''payment'' ''polygon'' ''0xabc''
     (eth_deliverLog Subscription 137 (quietChain 205) 2 (paymentLog 100 ''0xabc'')
        (eth_deliverLog Subscription 1 (quietChain 105) 1 (paymentLog 100 ''0xabc'')
           (storeWithInvoice ''100.00000000''))) = []
   \<and> eth_deliverLog Subscription 137 (quietChain 205) 2 (paymentLog 100 ''0xabc'')
        (eth_deliverLog Subscription 1 (quietChain 105) 1 (paymentLog 100 ''0xabc'')
           (storeWithInvoice ''100.00000000''))
      = eth_deliverLog Subscription 1 (quietChain 105) 1 (paymentLog 100 ''0xabc'')
           (storeWithInvoice ''100.00000000'')
   \<and> length (paymentsFor ''polygon'' ''0xabc''
        (eth_deliverLog Subscription 137 (quietChain 205) 2 (paymentLog 100 ''0xabc'')
           (storeWithInvoice ''100.00000000''))) = 1"
  by (simp add: eth_deliverLog_def eth_onPaymentReceived_def processDirectPaymentEvent_def
        eth_gasInfo_def quietChain_def directEventOfLog_def paymentLog_def
        storeWithInvoice_def invoiceI_def eth_newPayment_def eth_paymentTransaction_def
        getChainName_def paymentsFor_def ledgerFor_def fits_defs fits_facts show_nat_100)

text \<open>
  C6, at the failing input. A WithdrawalExecuted log and a FeeCollected log of a
  registered application are each delivered once by the subscription and once by the
  backfill. Neither handler looks for an existing entry: the ledger holds the withdrawal
  twice and the fee twice.
\<close>

theorem withdrawal_and_fee_recorded_twice:
  "length (ledgerFor ''withdrawal'' ''push-chain'' ''0xdef''
     (processWithdrawalEventFromLog ''0xgateway'' 6 withdrawalLog
        (onWithdrawalExecuted ''0xgateway'' 1 withdrawalLog storeWithApp))) = 2
   \<and> length (ledgerFor ''fee'' ''push-chain'' ''0xfee''
     (processFeeEventFromLog integerToString 6 feeLog
        (onFeeCollected integerToString 1 feeLog storeWithApp))) = 2"
proof -
  have total: "totalFee integerToString (show_nat 3) (show_nat 2) = show_nat 5"
    using totalFee_of_nat [of "show_nat 3" 3 "show_nat 2" 2 integerToString]
    by (simp add: StrDecimalLiteral_show_nat integerToString_def)
  show ?thesis
    by (simp add: processWithdrawalEventFromLog_def onWithdrawalExecuted_def
          processWithdrawalEvent_def withdrawalEventOfLog_def withdrawalLog_def
          processFeeEventFromLog_def onFeeCollected_def processFeeEvent_def feeEventOfLog_def
          feeLog_def storeWithApp_def ledgerFor_def fits_defs fits_facts total)
qed

section \<open>The cursor of the backfill\<close>

lemma push_tick_cursor:
  "lastProcessedBlock ix
     \<le> lastProcessedBlock (fst (push_processBlocks contract toStr c now (ix, s)))"
  by (simp add: push_processBlocks_def split: rpc.splits prod.splits bool.splits)

lemma eth_tick_cursor:
  "lastProcessedBlock ix \<le> lastProcessedBlock (fst (eth_processBlocks c now (ix, s)))"
  by (simp add: eth_processBlocks_def split: rpc.splits)

lemma push_ticks_cursor:
  "lastProcessedBlock (fst st)
     \<le> lastProcessedBlock (fst (push_ticks contract toStr ticks st))"
proof (induction ticks arbitrary: st)
  case Nil
  show ?case by (simp add: push_ticks_def)
next
  case (Cons tick ticks)
  let ?st = "push_processBlocks contract toStr (fst tick) (snd tick) st"
  have "lastProcessedBlock (fst st) \<le> lastProcessedBlock (fst ?st)"
    using push_tick_cursor [of "fst st" contract toStr "fst tick" "snd tick" "snd st"] by simp
  also have "\<dots> \<le> lastProcessedBlock (fst (push_ticks contract toStr ticks ?st))"
    by (rule Cons.IH)
  finally show ?case by (simp add: push_ticks_def)
qed

lemma eth_ticks_cursor:
  "lastProcessedBlock (fst st) \<le> lastProcessedBlock (fst (eth_ticks ticks st))"
proof (induction ticks arbitrary: st)
  case Nil
  show ?case by (simp add: eth_ticks_def)
next
  case (Cons tick ticks)
  let ?st = "eth_processBlocks (fst tick) (snd tick) st"
  have "lastProcessedBlock (fst st) \<le> lastProcessedBlock (fst ?st)"
    using eth_tick_cursor [of "fst st" "fst tick" "snd tick" "snd st"] by simp
  also have "\<dots> \<le> lastProcessedBlock (fst (eth_ticks ticks ?st))"
    by (rule Cons.IH)
  finally show ?case by (simp add: eth_ticks_def)
qed

lemma push_tick_query_throws:
  assumes "getBlockNumber c = Returns latestBlock"
    and "queryPaymentReceived c (lastProcessedBlock ix + 1) latestBlock = Throws
         \<or> queryWithdrawalExecuted c (lastProcessedBlock ix + 1) latestBlock = Throws
         \<or> queryFeeCollected c (lastProcessedBlock ix + 1) latestBlock = Throws"
  shows "push_processBlocks contract toStr c now (ix, s) = (ix, s)"
  using assms
  by (auto simp: push_processBlocks_def push_processBlockRange_def split: rpc.splits)

text \<open>
  C5, as the code has it. Over any sequence of backfill ticks the cursor of a watcher
  does not decrease. A tick whose block-height query throws changes neither the cursor
  nor the store, for both watchers; so does a Push Chain tick in which one of the three
  log queries throws.
\<close>

theorem cursor_monotone:
  "lastProcessedBlock ix
     \<le> lastProcessedBlock (fst (push_ticks contract toStr ticks (ix, s)))
   \<and> lastProcessedBlock ex \<le> lastProcessedBlock (fst (eth_ticks ticks (ex, s)))
   \<and> (getBlockNumber c = Throws \<longrightarrow>
        push_processBlocks contract toStr c now (ix, s) = (ix, s)
        \<and> eth_processBlocks c now (ex, s) = (ex, s))
   \<and> (getBlockNumber c = Returns latestBlock
        \<and> (queryPaymentReceived c (lastProcessedBlock ix + 1) latestBlock = Throws
           \<or> queryWithdrawalExecuted c (lastProcessedBlock ix + 1) latestBlock = Throws
           \<or> queryFeeCollected c (lastProcessedBlock ix + 1) latestBlock = Throws) \<longrightarrow>
        push_processBlocks contract toStr c now (ix, s) = (ix, s))"
proof -
  have 1: "lastProcessedBlock ix
             \<le> lastProcessedBlock (fst (push_ticks contract toStr ticks (ix, s)))"
    using push_ticks_cursor [of "(ix, s)" contract toStr ticks] by simp
  have 2: "lastProcessedBlock ex \<le> lastProcessedBlock (fst (eth_ticks ticks (ex, s)))"
    using eth_ticks_cursor [of "(ex, s)" ticks] by simp
  have 3: "getBlockNumber c = Throws \<longrightarrow>
        push_processBlocks contract toStr c now (ix, s) = (ix, s)
        \<and> eth_processBlocks c now (ex, s) = (ex, s)"
    by (simp add: push_processBlocks_def eth_processBlocks_def)
  show ?thesis
    using 1 2 3 push_tick_query_throws [of c latestBlock ix contract toStr now s]
    by blast
qed

theorem cursor_monotone_witness:
  "(100::nat) \<le> lastProcessedBlock (fst (push_ticks ''0xgateway'' integerToString
        [(failingChain, 1), (quietChain 105, 6)] (runningAt100, emptyStore)))
   \<and> lastProcessedBlock (fst (push_ticks ''0xgateway'' integerToString
        [(failingChain, 1), (quietChain 105, 6)] (runningAt100, emptyStore))) = 105
   \<and> push_processBlocks ''0xgateway'' integerToString failingChain 1 (runningAt100, emptyStore)
       = (runningAt100, emptyStore)
   \<and> eth_processBlocks failingChain 1 (ethRunningAt100, emptyStore)
       = (ethRunningAt100, emptyStore)
   \<and> push_processBlocks ''0xgateway'' integerToString
        ((quietChain 105)\<lparr>queryFeeCollected := (\<lambda>_ _. Throws)\<rparr>) 1 (runningAt100, emptyStore)
       = (runningAt100, emptyStore)"
proof -
  have t: "getBlockNumber failingChain = Throws" by (simp add: failingChain_def)
  have q: "getBlockNumber ((quietChain 105)\<lparr>queryFeeCollected := (\<lambda>_ _. Throws)\<rparr>) = Returns 105
     \<and> queryFeeCollected ((quietChain 105)\<lparr>queryFeeCollected := (\<lambda>_ _. Throws)\<rparr>)
          (lastProcessedBlock runningAt100 + 1) 105 = Throws"
    by (simp add: quietChain_def)
  have v: "lastProcessedBlock (fst (push_ticks ''0xgateway'' integerToString
        [(failingChain, 1), (quietChain 105, 6)] (runningAt100, emptyStore))) = 105"
    by (simp add: push_ticks_def push_processBlocks_def push_processBlockRange_def
          failingChain_def quietChain_def runningAt100_def)
  show ?thesis
    using cursor_monotone [of runningAt100 "''0xgateway''" integerToString
            "[(failingChain, 1), (quietChain 105, 6)]" emptyStore ethRunningAt100
            failingChain 1 105]
          cursor_monotone [of runningAt100 "''0xgateway''" integerToString
            "[]" emptyStore ethRunningAt100
            "(quietChain 105)\<lparr>queryFeeCollected := (\<lambda>_ _. Throws)\<rparr>" 1 105]
          t q v
    by simp
qed

text \<open>
  C5 as stated fails at two inputs. A Push Chain tick finds one PaymentReceived
  log whose receipt lookup throws: the handler drops the event, and the cursor moves
  from 100 to 105 with nothing recorded. An Ethereum tick whose PaymentReceived query
  throws moves the cursor from 100 to 105 as well.
\<close>

theorem cursor_advances_past_failed_call:
  "getTransactionReceipt
      ((quietChain 105)\<lparr>getTransactionReceipt := (\<lambda>_. Throws),
         queryPaymentReceived := (\<lambda>_ _. Returns [Decoded (paymentLog 100 ''0xabc'')])\<rparr>)
      ''0xabc'' = Throws
   \<and> push_processBlocks ''0xgateway'' integerToString
       ((quietChain 105)\<lparr>getTransactionReceipt := (\<lambda>_. Throws),
          queryPaymentReceived := (\<lambda>_ _. Returns [Decoded (paymentLog 100 ''0xabc'')])\<rparr>)
       1 (runningAt100, storeWithInvoice ''100.00000000'')
     = (runningAt100\<lparr>lastProcessedBlock := 105\<rparr>, storeWithInvoice ''100.00000000'')
   \<and> queryPaymentReceived ((quietChain 105)\<lparr>queryPaymentReceived := (\<lambda>_ _. Throws)\<rparr>) 101 105
     = Throws
   \<and> eth_processBlocks ((quietChain 105)\<lparr>queryPaymentReceived := (\<lambda>_ _. Throws)\<rparr>) 1
       (ethRunningAt100, storeWithInvoice ''100.00000000'')
     = (ethRunningAt100\<lparr>lastProcessedBlock := 105\<rparr>, storeWithInvoice ''100.00000000'')"
  by (simp add: push_processBlocks_def push_processBlockRange_def
        processPaymentEventFromLog_def processPaymentEvent_def push_gasInfo_def
        paymentEventOfLog_def paymentLog_def eth_processBlocks_def eth_batches.simps
        eth_processBlockRange_def quietChain_def runningAt100_def ethRunningAt100_def)

section \<open>CrossChainPaymentInitiated\<close>

text \<open>
  The ledger entry of an Ethereum watcher repeats the columns of its payment row: once
  the payment row is accepted, the entry is accepted when the application of the invoice
  is registered, which the foreign key of the invoices table guarantees.
\<close>

lemma eth_transactionFits:
  assumes "paymentFits s (eth_newPayment kind idKey cid now e)"
    and "i_appId invoice \<in> set (apps s)"
  shows "transactionFits s (eth_paymentTransaction kind idKey cid now invoice e)"
  using assms
  by (simp add: paymentFits_def transactionFits_def eth_newPayment_def
        eth_paymentTransaction_def varcharFits_def)

text \<open>
  C7, as the code has it. Processing a CrossChainPaymentInitiated event never changes an
  invoice. Let the receipt lookup not throw, the invoice exist and no payment row have
  the event's invoice and hash. When the payments table accepts the row, the handler
  inserts one payment row with status \<^verbatim>\<open>confirmed\<close>, tagged \<^verbatim>\<open>cross-chain\<close> in its
  metadata, and, the application of the invoice being registered, one ledger entry of
  type \<^verbatim>\<open>payment\<close>, both on the watcher's chain. When the table rejects the row, the
  handler leaves the store as it was.
\<close>

theorem cross_chain_initiated_records_confirmed_payment:
  assumes "eth_gasInfo c e = Returns e'"
    and "find (\<lambda>i. i_id i = invoiceId e) (invoices s) = Some invoice"
    and "find (\<lambda>p. p_invoiceId p = invoiceId e \<and> p_txHash p = txHash e) (payments s) = None"
  shows "invoices (processCrossChainPaymentEvent cid c now e s) = invoices s
       \<and> (paymentFits s (eth_newPayment ''cross-chain'' ''sourceChainId'' cid now e') \<longrightarrow>
            (\<exists>row.
               payments (processCrossChainPaymentEvent cid c now e s) = payments s @ [row]
             \<and> p_status row = ''confirmed''
             \<and> p_externalChain row = getChainName cid
             \<and> p_txHash row = txHash e
             \<and> p_invoiceId row = invoiceId e
             \<and> map_of (p_metadata row) ''type'' = Some (JString ''cross-chain''))
          \<and> (i_appId invoice \<in> set (apps s) \<longrightarrow>
               (\<exists>entry.
                  transactions (processCrossChainPaymentEvent cid c now e s)
                    = transactions s @ [entry]
                \<and> t_type entry = ''payment''
                \<and> t_chain entry = getChainName cid
                \<and> t_txHash entry = txHash e)))
       \<and> (\<not> paymentFits s (eth_newPayment ''cross-chain'' ''sourceChainId'' cid now e') \<longrightarrow>
            processCrossChainPaymentEvent cid c now e s = s)"
proof -
  let ?row = "eth_newPayment ''cross-chain'' ''sourceChainId'' cid now e'"
  let ?entry = "eth_paymentTransaction ''cross-chain'' ''sourceChainId'' cid now invoice e'"
  note k = eth_gasInfo_fields(1,2) [OF assms(1)]
  have row: "payments (processCrossChainPaymentEvent cid c now e s) = payments s @ [?row]"
    if "paymentFits s ?row"
    using processCrossChainPaymentEvent_first(1) [OF assms that] .
  have entry: "transactions (processCrossChainPaymentEvent cid c now e s)
                 = transactions s @ [?entry]"
    if "paymentFits s ?row" and "i_appId invoice \<in> set (apps s)"
    using processCrossChainPaymentEvent_first(2) [OF assms that(1)]
      eth_transactionFits [OF that]
    by simp
  have fields: "p_status ?row = ''confirmed''" "p_externalChain ?row = getChainName cid"
    "p_txHash ?row = txHash e" "p_invoiceId ?row = invoiceId e"
    "map_of (p_metadata ?row) ''type'' = Some (JString ''cross-chain'')"
    "t_type ?entry = ''payment''" "t_chain ?entry = getChainName cid"
    "t_txHash ?entry = txHash e"
    using k by (simp_all add: eth_newPayment_def eth_paymentTransaction_def)
  show ?thesis
    using row entry fields processCrossChainPaymentEvent_rejected [OF assms(1), of s cid now]
    by (simp add: invoices_processCrossChainPaymentEvent)
qed

theorem cross_chain_initiated_records_confirmed_payment_witness:
  "invoices (processCrossChainPaymentEvent 1 (quietChain 105) 1
       (crossChainEventOfLog 1 crossChainLog) (storeWithInvoice ''100.00000000''))
     = [invoiceI ''100.00000000'']
   \<and> map p_status (payments (processCrossChainPaymentEvent 1 (quietChain 105) 1
       (crossChainEventOfLog 1 crossChainLog) (storeWithInvoice ''100.00000000'')))
     = [''confirmed'']
   \<and> map t_type (transactions (processCrossChainPaymentEvent 1 (quietChain 105) 1
       (crossChainEventOfLog 1 crossChainLog) (storeWithInvoice ''100.00000000'')))
     = [''payment'']
   \<and> processCrossChainPaymentEvent 1 (minedChain 105) 1
       (crossChainEventOfLog 1 crossChainLog) (storeWithInvoice ''100.00000000'')
     = storeWithInvoice ''100.00000000''"
proof -
  let ?e = "crossChainEventOfLog 1 crossChainLog"
  let ?m = "?e\<lparr>gasUsed := ''21000'', gasFee := ''21000000000000''\<rparr>"
  let ?s = "storeWithInvoice ''100.00000000''"
  have 1: "eth_gasInfo (quietChain 105) ?e = Returns ?e"
    by (simp add: eth_gasInfo_def quietChain_def)
  have m: "eth_gasInfo (minedChain 105) ?e = Returns ?m"
    by (simp add: eth_gasInfo_def minedChain_def quietChain_def show_nat_gas show_nat_gasFee)
  have 2: "find (\<lambda>i. i_id i = invoiceId ?e) (invoices ?s) = Some (invoiceI ''100.00000000'')"
    by (simp add: storeWithInvoice_def invoiceI_def crossChainEventOfLog_def crossChainLog_def)
  have 3: "find (\<lambda>p. p_invoiceId p = invoiceId ?e \<and> p_txHash p = txHash ?e) (payments ?s) = None"
    by (simp add: storeWithInvoice_def)
  have 4: "invoices ?s = [invoiceI ''100.00000000'']" "payments ?s = []" "transactions ?s = []"
    by (simp_all add: storeWithInvoice_def)
  have 5: "paymentFits ?s (eth_newPayment ''cross-chain'' ''sourceChainId'' 1 1 ?e)"
    by (simp add: fits_defs fits_facts eth_newPayment_def crossChainEventOfLog_def
          crossChainLog_def storeWithInvoice_def invoiceI_def getChainName_def)
  have 6: "i_appId (invoiceI ''100.00000000'') \<in> set (apps ?s)"
    by (simp add: storeWithInvoice_def invoiceI_def)
  have 7: "\<not> paymentFits ?s (eth_newPayment ''cross-chain'' ''sourceChainId'' 1 1 ?m)"
    by (simp add: paymentFits_def eth_newPayment_def gasFee_rejected)
  have quiet: "invoices (processCrossChainPaymentEvent 1 (quietChain 105) 1 ?e ?s)
                 = [invoiceI ''100.00000000'']
     \<and> map p_status (payments (processCrossChainPaymentEvent 1 (quietChain 105) 1 ?e ?s))
         = [''confirmed'']
     \<and> map t_type (transactions (processCrossChainPaymentEvent 1 (quietChain 105) 1 ?e ?s))
         = [''payment'']"
    using cross_chain_initiated_records_confirmed_payment [OF 1 2 3, of 1 1] 5 6
    by (auto simp: 4)
  have mined: "processCrossChainPaymentEvent 1 (minedChain 105) 1 ?e ?s = ?s"
    using cross_chain_initiated_records_confirmed_payment [OF m 2 3, of 1 1] 7 by blast
  show ?thesis using quiet mined by (simp only: simp_thms)
qed

text \<open>
  C7 as stated fails: the CrossChainPaymentInitiated log of the scenario, handled
  by the watcher of chain 1, turns an empty payments table into one holding a confirmed
  payment, through the subscription as through the backfill.
\<close>

theorem cross_chain_initiated_confirms:
  "payments (storeWithInvoice ''100.00000000'') = []
   \<and> map p_status (payments (eth_onCrossChainPaymentInitiated 1 (quietChain 105) 1
        crossChainLog (storeWithInvoice ''100.00000000''))) = [''confirmed'']
   \<and> map p_status (payments (snd (eth_processBlocks
        ((quietChain 105)\<lparr>queryCrossChainPaymentInitiated :=
            (\<lambda>_ _. Returns [Decoded crossChainLog])\<rparr>) 1
        (ethRunningAt100, storeWithInvoice ''100.00000000'')))) = [''confirmed'']"
  by (simp add: eth_onCrossChainPaymentInitiated_def processCrossChainPaymentEvent_def
        eth_gasInfo_def crossChainEventOfLog_def crossChainLog_def quietChain_def
        storeWithInvoice_def invoiceI_def eth_newPayment_def eth_processBlocks_def
        eth_batches.simps eth_processBlockRange_def ethRunningAt100_def
        eth_paymentTransaction_def getChainName_def fits_defs fits_facts show_nat_100)

section \<open>The paid transition\<close>

lemma find_setInvoicePaid:
  "find (\<lambda>i. i_id i = k) (setInvoicePaid now k rows)
     = map_option (\<lambda>i. i\<lparr>i_status := ''paid'', i_paidAt := Some now, i_updatedAt := now\<rparr>)
         (find (\<lambda>i. i_id i = k) rows)"
  by (induction rows) (simp_all add: setInvoicePaid_def)






lemmas scenario_defs = processPaymentEvent_def push_gasInfo_def quietChain_def
  paymentEventOfLog_def paymentLog_def storeWithInvoice_def invoiceI_def setInvoicePaid_def
  push_newPayment_def push_paymentTransaction_def run_def Let_def fits_defs fits_facts




text \<open>
  C3, as the code has it. A Push Chain PaymentReceived event for an existing invoice
  arrives with a hash not yet recorded for Push Chain and a receipt lookup that does not
  throw. When the payments table accepts its row, the event is recorded as a confirmed
  payment row, and the invoice becomes paid exactly when the event amount compares
  \<open>\<ge>\<close> the invoice amount as binary64 numbers: always when the two amounts denote the
  same value, and not when the event amount is the smaller of two integers up to
  \<open>2^53\<close>. When the table rejects the row, the handler leaves the store as it was: no
  payment row, and the invoice as before.
\<close>

theorem threshold_in_binary64:
  assumes "push_gasInfo c e = Returns e'"
    and "find (\<lambda>p. p_txHash p = txHash e \<and> p_externalChain p = ''push-chain'') (payments s)
           = None"
    and "find (\<lambda>i. i_id i = invoiceId e) (invoices s) = Some invoice"
  shows "(paymentFits s (push_newPayment now e') \<longrightarrow>
            payments (processPaymentEvent contract c now e s)
              = payments s @ [push_newPayment now e']
          \<and> p_status (push_newPayment now e') = ''confirmed''
          \<and> p_amount (push_newPayment now e') = amount e
          \<and> (amountCovers (amount e) (i_amount invoice) \<longrightarrow>
               find (\<lambda>i. i_id i = invoiceId e)
                 (invoices (processPaymentEvent contract c now e s))
                 = Some (invoice\<lparr>i_status := ''paid'', i_paidAt := Some now,
                                  i_updatedAt := now\<rparr>))
          \<and> (\<not> amountCovers (amount e) (i_amount invoice) \<longrightarrow>
               invoices (processPaymentEvent contract c now e s) = invoices s))
       \<and> (\<not> paymentFits s (push_newPayment now e') \<longrightarrow>
            processPaymentEvent contract c now e s = s)
       \<and> (\<forall>x. StrDecimalLiteral (amount e) = MV x \<and> StrDecimalLiteral (i_amount invoice) = MV x
              \<longrightarrow> amountCovers (amount e) (i_amount invoice))
       \<and> (\<forall>m n. StrDecimalLiteral (amount e) = MV (of_nat m)
                \<and> StrDecimalLiteral (i_amount invoice) = MV (of_nat n)
                \<and> m < n \<and> n \<le> 2 ^ 53
              \<longrightarrow> \<not> amountCovers (amount e) (i_amount invoice))"
proof -
  have less: "\<not> amountCovers (amount e) (i_amount invoice)"
    if "StrDecimalLiteral (amount e) = MV (of_nat m)"
      and "StrDecimalLiteral (i_amount invoice) = MV (of_nat n)"
      and "m < n" and "n \<le> 2 ^ 53" for m n :: nat
  proof -
    have "m \<le> 2 ^ 53" using that(3,4) by simp
    then show ?thesis using amountCovers_of_nat [OF that(1,2) _ that(4)] that(3) by simp
  qed
  have fits: "payments (processPaymentEvent contract c now e s)
                = payments s @ [push_newPayment now e']
      \<and> p_status (push_newPayment now e') = ''confirmed''
      \<and> p_amount (push_newPayment now e') = amount e
      \<and> (amountCovers (amount e) (i_amount invoice) \<longrightarrow>
           find (\<lambda>i. i_id i = invoiceId e)
             (invoices (processPaymentEvent contract c now e s))
             = Some (invoice\<lparr>i_status := ''paid'', i_paidAt := Some now,
                              i_updatedAt := now\<rparr>))
      \<and> (\<not> amountCovers (amount e) (i_amount invoice) \<longrightarrow>
           invoices (processPaymentEvent contract c now e s) = invoices s)"
    if f: "paymentFits s (push_newPayment now e')"
    using push_gasInfo_fields(3) [OF assms(1)] assms(3)
    by (simp add: processPaymentEvent_first(1,2) [OF assms f] push_newPayment_def
          find_setInvoicePaid)
  show ?thesis
    using fits less processPaymentEvent_rejected [OF assms(1), of s now contract]
    by (auto simp: amountCovers_same_value)
qed

theorem threshold_in_binary64_witness:
  "map p_status (payments (processPaymentEvent ''0xgateway'' (quietChain 105) 1
       (paymentEventOfLog (paymentLog 100 ''0xabc'')) (storeWithInvoice ''100.00000000'')))
     = [''confirmed'']
   \<and> map_option i_status
        (find (\<lambda>i. i_id i = invoiceId (paymentEventOfLog (paymentLog 100 ''0xabc'')))
          (invoices (processPaymentEvent ''0xgateway'' (quietChain 105) 1
            (paymentEventOfLog (paymentLog 100 ''0xabc'')) (storeWithInvoice ''100.00000000''))))
     = Some ''paid''
   \<and> map p_status (payments (processPaymentEvent ''0xgateway'' (quietChain 105) 1
       (paymentEventOfLog (paymentLog 60 ''0xabc'')) (storeWithInvoice ''100.00000000'')))
     = [''confirmed'']
   \<and> map i_status (invoices (processPaymentEvent ''0xgateway'' (quietChain 105) 1
       (paymentEventOfLog (paymentLog 60 ''0xabc'')) (storeWithInvoice ''100.00000000'')))
     = [''pending'']
   \<and> p_gasFee (push_newPayment 1
        ((paymentEventOfLog (paymentLog 100 ''0xabc''))
           \<lparr>gasUsed := ''21000'', gasFee := ''21000000000000''\<rparr>)) = ''21000000000000''
   \<and> \<not> numericFits 18 8 ''21000000000000''
   \<and> processPaymentEvent ''0xgateway'' (minedChain 105) 1
        (paymentEventOfLog (paymentLog 100 ''0xabc'')) (storeWithInvoice ''100.00000000'')
     = storeWithInvoice ''100.00000000''"
proof -
  let ?s = "storeWithInvoice ''100.00000000''"
  let ?e = "paymentEventOfLog (paymentLog 100 ''0xabc'')"
  let ?f = "paymentEventOfLog (paymentLog 60 ''0xabc'')"
  let ?m = "?e\<lparr>gasUsed := ''21000'', gasFee := ''21000000000000''\<rparr>"
  have g: "push_gasInfo (quietChain 105) ?e = Returns ?e"
    "push_gasInfo (quietChain 105) ?f = Returns ?f"
    by (simp_all add: push_gasInfo_def quietChain_def)
  have gm: "push_gasInfo (minedChain 105) ?e = Returns ?m"
    by (simp add: push_gasInfo_def minedChain_def quietChain_def show_nat_gas show_nat_gasFee)
  have p: "find (\<lambda>p. p_txHash p = txHash ?e \<and> p_externalChain p = ''push-chain'') (payments ?s)
             = None"
    "find (\<lambda>p. p_txHash p = txHash ?f \<and> p_externalChain p = ''push-chain'') (payments ?s)
             = None"
    by (simp_all add: storeWithInvoice_def)
  have i: "find (\<lambda>i. i_id i = invoiceId ?e) (invoices ?s) = Some (invoiceI ''100.00000000'')"
    "find (\<lambda>i. i_id i = invoiceId ?f) (invoices ?s) = Some (invoiceI ''100.00000000'')"
    by (simp_all add: storeWithInvoice_def invoiceI_def paymentEventOfLog_def paymentLog_def)
  have a: "amount ?e = ''100''" "amount ?f = ''60''"
    "i_amount (invoiceI ''100.00000000'') = ''100.00000000''"
    by (simp_all add: paymentEventOfLog_def paymentLog_def show_nat_100 show_nat_60 invoiceI_def)
  have s: "invoices ?s = [invoiceI ''100.00000000'']" "payments ?s = []"
    by (simp_all add: storeWithInvoice_def)
  have fe: "paymentFits ?s (push_newPayment 1 ?e)"
    and ff: "paymentFits ?s (push_newPayment 1 ?f)"
    by (simp_all add: fits_defs fits_facts push_newPayment_def paymentEventOfLog_def
          paymentLog_def storeWithInvoice_def invoiceI_def)
  have fm: "\<not> paymentFits ?s (push_newPayment 1 ?m)"
    by (simp add: paymentFits_def push_newPayment_def gasFee_rejected)
  have e1: "map p_status (payments (processPaymentEvent ''0xgateway'' (quietChain 105) 1 ?e ?s))
              = [''confirmed'']"
    using threshold_in_binary64 [OF g(1) p(1) i(1), of 1 "''0xgateway''"] fe by (simp add: s)
  have e2: "map p_status (payments (processPaymentEvent ''0xgateway'' (quietChain 105) 1 ?f ?s))
              = [''confirmed'']"
    using threshold_in_binary64 [OF g(2) p(2) i(2), of 1 "''0xgateway''"] ff by (simp add: s)
  have e3: "invoices (processPaymentEvent ''0xgateway'' (quietChain 105) 1 ?f ?s) = invoices ?s"
    using threshold_in_binary64 [OF g(2) p(2) i(2), of 1 "''0xgateway''"] ff covers_not_60
    by (simp add: a)
  have e4: "find (\<lambda>i. i_id i = invoiceId ?e)
              (invoices (processPaymentEvent ''0xgateway'' (quietChain 105) 1 ?e ?s))
            = Some ((invoiceI ''100.00000000'')\<lparr>i_status := ''paid'', i_paidAt := Some 1,
                                                  i_updatedAt := 1\<rparr>)"
    using threshold_in_binary64 [OF g(1) p(1) i(1), of 1 "''0xgateway''"] fe covers_100
    by (simp add: a)
  have e5: "processPaymentEvent ''0xgateway'' (minedChain 105) 1 ?e ?s = ?s"
    using threshold_in_binary64 [OF gm p(1) i(1), of 1 "''0xgateway''"] fm by blast
  have e6: "p_gasFee (push_newPayment 1 ?m) = ''21000000000000''"
    by (simp add: push_newPayment_def)
  show ?thesis using e1 e2 e3 e4 e5 e6 gasFee_rejected by (simp add: s invoiceI_def)
qed

text \<open>
  C3 as stated fails at three inputs. On Push Chain a payment of 1000000000 for an
  invoice of 1000000000.00000001 is strictly less and the invoice becomes paid. On an
  Ethereum watcher a payment of 100 for an invoice of 100.00000000 is recorded and the
  invoice stays pending: \<open>processDirectPaymentEvent\<close> never writes an invoice. On Push
  Chain a payment of 100 for an invoice of 100.00000000, mined with 21000 gas at 1 gwei,
  is equal to the invoice amount and the invoice stays pending: the gas fee in wei does
  not fit its column, the insert throws and the handler records nothing.
\<close>

theorem threshold_missed:
  "(1000000000 :: rat) < 100000000000000001 / 100000000
   \<and> StrDecimalLiteral (show_nat 1000000000) = MV 1000000000
   \<and> StrDecimalLiteral ''1000000000.00000001'' = MV (100000000000000001 / 100000000)
   \<and> map i_status (invoices (push_deliverLog Subscription ''0xgateway'' (quietChain 105) 1
        (paymentLog 1000000000 ''0xabc'') (storeWithInvoice ''1000000000.00000001'')))
      = [''paid'']
   \<and> StrDecimalLiteral (show_nat 100) = MV 100
   \<and> StrDecimalLiteral ''100.00000000'' = MV 100
   \<and> map p_status (payments (eth_deliverLog Subscription 1 (quietChain 105) 1
        (paymentLog 100 ''0xabc'') (storeWithInvoice ''100.00000000''))) = [''confirmed'']
   \<and> map i_status (invoices (eth_deliverLog Subscription 1 (quietChain 105) 1
        (paymentLog 100 ''0xabc'') (storeWithInvoice ''100.00000000''))) = [''pending'']
   \<and> push_deliverLog Subscription ''0xgateway'' (minedChain 105) 1
        (paymentLog 100 ''0xabc'') (storeWithInvoice ''100.00000000'')
      = storeWithInvoice ''100.00000000''"
proof -
  have mined: "push_deliverLog Subscription ''0xgateway'' (minedChain 105) 1
        (paymentLog 100 ''0xabc'') (storeWithInvoice ''100.00000000'')
      = storeWithInvoice ''100.00000000''"
    by (simp add: push_deliverLog_def onPaymentReceived_def processPaymentEvent_def
          push_gasInfo_def minedChain_def quietChain_def paymentEventOfLog_def paymentLog_def
          storeWithInvoice_def invoiceI_def insertPayment_def paymentFits_def
          push_newPayment_def numericFits_18_8_show_nat)
  have quiet: "(1000000000 :: rat) < 100000000000000001 / 100000000
   \<and> StrDecimalLiteral (show_nat 1000000000) = MV 1000000000
   \<and> StrDecimalLiteral ''1000000000.00000001'' = MV (100000000000000001 / 100000000)
   \<and> map i_status (invoices (push_deliverLog Subscription ''0xgateway'' (quietChain 105) 1
        (paymentLog 1000000000 ''0xabc'') (storeWithInvoice ''1000000000.00000001'')))
      = [''paid'']
   \<and> StrDecimalLiteral (show_nat 100) = MV 100
   \<and> StrDecimalLiteral ''100.00000000'' = MV 100
   \<and> map p_status (payments (eth_deliverLog Subscription 1 (quietChain 105) 1
        (paymentLog 100 ''0xabc'') (storeWithInvoice ''100.00000000''))) = [''confirmed'']
   \<and> map i_status (invoices (eth_deliverLog Subscription 1 (quietChain 105) 1
        (paymentLog 100 ''0xabc'') (storeWithInvoice ''100.00000000''))) = [''pending'']"
    using parse_1e9 parse_1e9_8 parse_100 parse_100_8
    by (simp add: scenario_defs show_nat_100 show_nat_1e9 covers_1e9 push_deliverLog_def
        onPaymentReceived_def eth_deliverLog_def eth_onPaymentReceived_def
        processDirectPaymentEvent_def eth_gasInfo_def directEventOfLog_def eth_newPayment_def
        eth_paymentTransaction_def getChainName_def)
  show ?thesis using quiet mined by (simp only: simp_thms)
qed

section \<open>The manager\<close>

lemma show_nat_999999: "show_nat 999999 = ''999999''"
  by (simp add: show_nat.simps digitChar_def)

text \<open>
  C9. For a chain id that is neither the Push Chain id 42101 nor a key of the manager's
  map of Ethereum watchers, \<open>startIndexer\<close> and \<open>stopIndexer\<close> fail with the error
  "No indexer configured for chain <id>" and return the manager unchanged: no watcher's
  running flag, cursor or listeners change, and the manager's own flag does not change.
\<close>

theorem unknown_chain_rejected:
  assumes "cid \<noteq> 42101" and "map_of (ethereumIndexers m) cid = None"
  shows "startIndexer clients cid m =
           (Some (Error (''No indexer configured for chain '' @ show_nat cid)), m)
       \<and> stopIndexer cid m =
           (Some (Error (''No indexer configured for chain '' @ show_nat cid)), m)"
  using assms by (simp add: startIndexer_def stopIndexer_def)

theorem unknown_chain_rejected_witness:
  "startIndexer (\<lambda>_. quietChain 500) 999999
     (newIndexerManager
        [\<lparr> cfg_chainId = 1, cfg_rpcUrl = ''https://eth.llamarpc.com'',
            cfg_contractAddress = ''0xgateway'', cfg_enabled = True \<rparr>]) =
     (Some (Error ''No indexer configured for chain 999999''),
      newIndexerManager
        [\<lparr> cfg_chainId = 1, cfg_rpcUrl = ''https://eth.llamarpc.com'',
            cfg_contractAddress = ''0xgateway'', cfg_enabled = True \<rparr>])
   \<and> stopIndexer 999999
     (newIndexerManager
        [\<lparr> cfg_chainId = 1, cfg_rpcUrl = ''https://eth.llamarpc.com'',
            cfg_contractAddress = ''0xgateway'', cfg_enabled = True \<rparr>]) =
     (Some (Error ''No indexer configured for chain 999999''),
      newIndexerManager
        [\<lparr> cfg_chainId = 1, cfg_rpcUrl = ''https://eth.llamarpc.com'',
            cfg_contractAddress = ''0xgateway'', cfg_enabled = True \<rparr>])"
proof -
  let ?m = "newIndexerManager
        [\<lparr> cfg_chainId = 1, cfg_rpcUrl = ''https://eth.llamarpc.com'',
            cfg_contractAddress = ''0xgateway'', cfg_enabled = True \<rparr>]"
  have 1: "(999999::nat) \<noteq> 42101" by simp
  have 2: "map_of (ethereumIndexers ?m) 999999 = None"
    by (simp add: newIndexerManager_def)
  show ?thesis
    using unknown_chain_rejected [OF 1 2, of "\<lambda>_. quietChain 500"]
    by (simp add: show_nat_999999)
qed

text \<open>
  C10. \<open>startAll\<close> sets the manager's running flag whatever its watchers answer, and a
  manager whose flag is set is returned unchanged by every further \<open>startAll\<close>: no
  watcher is started, no running flag, cursor or listener changes, also when the first
  call left watchers stopped because their chain clients threw. \<open>stopAll\<close> leaves the
  flag cleared.
\<close>

theorem startAll_once:
  "m_isRunning (startAll clients m)
   \<and> (m_isRunning m' \<longrightarrow> startAll clients' m' = m')
   \<and> startAll clients' (startAll clients m) = startAll clients m
   \<and> \<not> m_isRunning (stopAll m')"
  by (simp add: startAll_def stopAll_def)

theorem startAll_once_witness:
  "m_isRunning (startAll (\<lambda>_. failingChain) (newIndexerManager []))
   \<and> \<not> isRunning (pushChainIndexer (startAll (\<lambda>_. failingChain) (newIndexerManager [])))
   \<and> startAll (\<lambda>_. quietChain 500) (startAll (\<lambda>_. failingChain) (newIndexerManager []))
       = startAll (\<lambda>_. failingChain) (newIndexerManager [])"
proof -
  let ?m = "startAll (\<lambda>_. failingChain) (newIndexerManager [])"
  have r: "m_isRunning ?m"
    using startAll_once [of "\<lambda>_. failingChain" "newIndexerManager []"] by blast
  have "startAll (\<lambda>_. quietChain 500) ?m = ?m"
    using startAll_once [of "\<lambda>_. failingChain" "newIndexerManager []" ?m
            "\<lambda>_. quietChain 500"] r by blast
  moreover have "\<not> isRunning (pushChainIndexer ?m)"
    by (simp add: startAll_def newIndexerManager_def push_start_def failingChain_def)
  ultimately show ?thesis using r by simp
qed

end
